theory Spec2Isabelle
  imports Complex_Main
begin

text \<open>
  The scripts of the port scanner's pages, script.js, script1.js and scriptgemin.js:
  their validators, their submit handlers with the request to the backend, and the
  loader of the results page. The theme switch, the icons and what is written to the
  console are not modelled.
\<close>

section \<open>JavaScript strings\<close>

text \<open>
  A JavaScript string is a sequence of UTF-16 code units. A code unit is modelled by its
  number; every statement below holds for all lists of numbers, hence for all strings.
  String literals of the scripts are ASCII and are written with \<open>js\<close>.
\<close>

type_synonym jschar = nat
type_synonym jsstring = "jschar list"

definition js :: "string \<Rightarrow> jsstring" where
  "js s = map of_char s"

text \<open>
  The character classes the scripts' regular expressions use. \<open>\d\<close> is \<open>[0-9]\<close>;
  \<open>\s\<close> is the WhiteSpace and LineTerminator code points of ECMAScript, the same set
  that \<open>String.prototype.trim\<close> strips.
\<close>

definition digit :: "jschar \<Rightarrow> bool" where
  "digit c \<longleftrightarrow> of_char CHR ''0'' \<le> c \<and> c \<le> of_char CHR ''9''"

definition lower :: "jschar \<Rightarrow> bool" where
  "lower c \<longleftrightarrow> of_char CHR ''a'' \<le> c \<and> c \<le> of_char CHR ''z''"

definition upper :: "jschar \<Rightarrow> bool" where
  "upper c \<longleftrightarrow> of_char CHR ''A'' \<le> c \<and> c \<le> of_char CHR ''Z''"

definition only :: "char \<Rightarrow> jschar \<Rightarrow> bool" where
  "only k c \<longleftrightarrow> c = of_char k"

definition whitespace :: "jschar \<Rightarrow> bool" where
  "whitespace c \<longleftrightarrow>
     (9 \<le> c \<and> c \<le> 13) \<or> c = 32 \<or> c = 160 \<or> c = 5760 \<or> (8192 \<le> c \<and> c \<le> 8202) \<or>
     c = 8232 \<or> c = 8233 \<or> c = 8239 \<or> c = 8287 \<or> c = 12288 \<or> c = 65279"

definition hyphen :: jschar where
  "hyphen = of_char CHR ''-''"

definition comma :: jschar where
  "comma = of_char CHR '',''"

definition underscore :: jschar where
  "underscore = of_char CHR ''_''"

text \<open>\<open>[a-zA-Z0-9.-]\<close>\<close>
definition hostname_class :: "jschar \<Rightarrow> bool" where
  "hostname_class c \<longleftrightarrow> lower c \<or> upper c \<or> digit c \<or> only CHR ''.'' c \<or> only CHR ''-'' c"

text \<open>\<open>[0-9a-fA-F:]\<close>\<close>
definition hex_colon_class :: "jschar \<Rightarrow> bool" where
  "hex_colon_class c \<longleftrightarrow>
     digit c \<or> (of_char CHR ''a'' \<le> c \<and> c \<le> of_char CHR ''f'') \<or>
     (of_char CHR ''A'' \<le> c \<and> c \<le> of_char CHR ''F'') \<or> only CHR '':'' c"

text \<open>\<open>[\d\s,-]\<close>\<close>
definition ports_class :: "jschar \<Rightarrow> bool" where
  "ports_class c \<longleftrightarrow> digit c \<or> whitespace c \<or> only CHR '','' c \<or> only CHR ''-'' c"

text \<open>\<open>s.trim()\<close>, \<open>s.replace(/\s+/g, '')\<close> and \<open>s.replace(/\s/g, '')\<close>, \<open>s.replace(/\D/g, '')\<close>.\<close>

definition trim :: "jsstring \<Rightarrow> jsstring" where
  "trim s = rev (dropWhile whitespace (rev (dropWhile whitespace s)))"

definition strip_whitespace :: "jsstring \<Rightarrow> jsstring" where
  "strip_whitespace s = filter (\<lambda>c. \<not> whitespace c) s"

definition strip_non_digits :: "jsstring \<Rightarrow> jsstring" where
  "strip_non_digits s = filter digit s"

section \<open>Regular expressions\<close>

text \<open>
  The patterns of the scripts use character classes, sequence, alternation, \<open>*\<close>, \<open>+\<close>,
  \<open>?\<close> and bounded repetition \<open>{m,n}\<close>, without back-references or look-around, and every
  pattern given to \<open>test\<close> is anchored by \<open>^\<close> and \<open>$\<close> (no \<open>m\<close> flag). For such a pattern
  \<open>test\<close> answers whether the whole string belongs to the pattern's language.
\<close>

datatype rx =
    Never
  | Empty
  | Chars "jschar \<Rightarrow> bool"
  | Cat rx rx
  | Or rx rx
  | Many rx

definition Many1 :: "rx \<Rightarrow> rx" where
  "Many1 r = Cat r (Many r)"

definition Maybe :: "rx \<Rightarrow> rx" where
  "Maybe r = Or r Empty"

fun Times :: "nat \<Rightarrow> nat \<Rightarrow> rx \<Rightarrow> rx" where
  "Times 0 0 r = Empty"
| "Times 0 (Suc n) r = Maybe (Cat r (Times 0 n r))"
| "Times (Suc m) 0 r = Never"
| "Times (Suc m) (Suc n) r = Cat r (Times m n r)"

fun nullable :: "rx \<Rightarrow> bool" where
  "nullable Never = False"
| "nullable Empty = True"
| "nullable (Chars p) = False"
| "nullable (Cat r s) = (nullable r \<and> nullable s)"
| "nullable (Or r s) = (nullable r \<or> nullable s)"
| "nullable (Many r) = True"

fun deriv :: "jschar \<Rightarrow> rx \<Rightarrow> rx" where
  "deriv c Never = Never"
| "deriv c Empty = Never"
| "deriv c (Chars p) = (if p c then Empty else Never)"
| "deriv c (Cat r s) =
     (if nullable r then Or (Cat (deriv c r) s) (deriv c s) else Cat (deriv c r) s)"
| "deriv c (Or r s) = Or (deriv c r) (deriv c s)"
| "deriv c (Many r) = Cat (deriv c r) (Many r)"

text \<open>\<open>/^r$/.test(s)\<close>, computed by derivatives of the pattern.\<close>
fun test :: "rx \<Rightarrow> jsstring \<Rightarrow> bool" where
  "test r [] = nullable r"
| "test r (c # cs) = test (deriv c r) cs"

subsection \<open>The language of a pattern\<close>

definition conc :: "jsstring set \<Rightarrow> jsstring set \<Rightarrow> jsstring set" where
  "conc A B = {u @ v | u v. u \<in> A \<and> v \<in> B}"

inductive_set star :: "jsstring set \<Rightarrow> jsstring set" for A :: "jsstring set" where
  star_nil: "[] \<in> star A"
| star_app: "u \<in> A \<Longrightarrow> v \<in> star A \<Longrightarrow> u @ v \<in> star A"

text \<open>\<open>k\<close> strings of \<open>A\<close> in a row.\<close>
fun times_exactly :: "jsstring set \<Rightarrow> nat \<Rightarrow> jsstring set" where
  "times_exactly A 0 = {[]}"
| "times_exactly A (Suc k) = conc A (times_exactly A k)"

fun lang :: "rx \<Rightarrow> jsstring set" where
  "lang Never = {}"
| "lang Empty = {[]}"
| "lang (Chars p) = {[c] | c. p c}"
| "lang (Cat r s) = conc (lang r) (lang s)"
| "lang (Or r s) = lang r \<union> lang s"
| "lang (Many r) = star (lang r)"

section \<open>Validators\<close>

subsection \<open>script.js\<close>

text \<open>\<open>/^(?:[a-zA-Z0-9.-]+|\[[0-9a-fA-F:]+\]|(?:\d{1,3}\.){3}\d{1,3})$/\<close>, in its three alternatives.\<close>

definition hostname_alt :: rx where
  "hostname_alt = Many1 (Chars hostname_class)"

definition ipv6_alt :: rx where
  "ipv6_alt = Cat (Chars (only CHR ''['')) (Cat (Many1 (Chars hex_colon_class)) (Chars (only CHR '']'')))"

definition ipv4_alt :: rx where
  "ipv4_alt =
     Cat (Times 3 3 (Cat (Times 1 3 (Chars digit)) (Chars (only CHR ''.'')))) (Times 1 3 (Chars digit))"

definition targetRegex :: rx where
  "targetRegex = Or hostname_alt (Or ipv6_alt ipv4_alt)"

definition validateTarget :: "jsstring \<Rightarrow> jsstring option" where
  "validateTarget target =
     (if target = [] \<or> trim target = [] then Some (js ''Target IP or Host is required.'')
      else if \<not> test targetRegex target then Some (js ''Invalid format for IP/hostname.'')
      else None)"

text \<open>\<open>/^(\d+(?:-\d+)?)(,\d+(?:-\d+)?)*$/\<close>\<close>

definition port_item :: rx where
  "port_item = Cat (Many1 (Chars digit)) (Maybe (Cat (Chars (only CHR ''-'')) (Many1 (Chars digit))))"

definition portsRegex :: rx where
  "portsRegex = Cat port_item (Many (Cat (Chars (only CHR '','')) port_item))"

definition validatePorts :: "jsstring \<Rightarrow> jsstring option" where
  "validatePorts ports =
     (if ports = [] \<or> trim ports = [] then Some (js ''Custom port list is required.'')
      else let cleaned = strip_whitespace ports in
        if \<not> test portsRegex cleaned
        then Some (js ''Invalid port list. Use comma separated numbers or ranges (e.g., 21,80,443-445).'')
        else None)"

subsection \<open>script1.js\<close>

text \<open>\<open>/^(?:[a-zA-Z0-9.-]+|(?:\d{1,3}\.){3}\d{1,3}|\[[0-9a-fA-F:]+\])$/\<close>\<close>

definition targetRegex_s1 :: rx where
  "targetRegex_s1 = Or hostname_alt (Or ipv4_alt ipv6_alt)"

definition validateTarget_s1 :: "jsstring \<Rightarrow> jsstring option" where
  "validateTarget_s1 target =
     (if trim target = [] then Some (js ''Target IP or Host is required.'')
      else if \<not> test targetRegex_s1 target
      then Some (js ''Invalid format. Please enter a valid IP or hostname.'')
      else None)"

text \<open>\<open>/^(\d+(?:-\d+)?)(,\s*\d+(?:-\d+)?)*$/\<close>\<close>

definition portListRegex :: rx where
  "portListRegex =
     Cat port_item (Many (Cat (Chars (only CHR '','')) (Cat (Many (Chars whitespace)) port_item)))"

definition validatePorts_s1 :: "jsstring \<Rightarrow> jsstring option" where
  "validatePorts_s1 ports =
     (if ports = [] then Some (js ''Custom port list is required.'')
      else if \<not> test portListRegex (strip_whitespace ports)
      then Some (js ''Invalid port list. Use comma-separated ports or ranges (e.g., 21, 80, 443-445).'')
      else None)"

subsection \<open>scriptgemin.js\<close>

text \<open>
  The values \<open>validateForm\<close> and \<open>handleScanSubmission\<close> read from the page: the value of
  \<open>#ip-host\<close>, of \<open>#port-select\<close> and of \<open>#ports-list\<close>, whether \<open>#terms-agreement\<close> is
  checked, and the value of the checked \<open>protocol\<close> radio button, if one is checked.
  The elements read without a guard are taken to exist.
\<close>

record form_gemin =
  ip_host :: jsstring
  port_select :: jsstring
  ports_list :: jsstring
  terms_agreement :: bool
  protocol_gemin :: "jsstring option"

text \<open>\<open>/^[\d\s,-]+$/\<close>\<close>

definition portsPattern :: rx where
  "portsPattern = Many1 (Chars ports_class)"

text \<open>The calls of \<open>displayError\<close> that \<open>validateForm\<close> makes, in order, as (element id, message).\<close>

definition validateForm_errors :: "form_gemin \<Rightarrow> (string \<times> jsstring) list" where
  "validateForm_errors f =
     (if trim (ip_host f) = [] then [(''ip-host'', js ''Target IP or Hostname is required.'')] else []) @
     (if port_select f = js ''custom'' then
        (if trim (ports_list f) = [] then [(''ports-list'', js ''Custom port list cannot be empty.'')]
         else if \<not> test portsPattern (trim (ports_list f))
         then [(''ports-list'', js ''Invalid port format. Use numbers, commas, hyphens, or spaces.'')]
         else [])
      else []) @
     (if \<not> terms_agreement f
      then [(''terms-agreement'', js ''You must agree to the Terms of Service.'')] else [])"

text \<open>\<open>isValid\<close> is set to false exactly where \<open>displayError\<close> is called.\<close>

definition validateForm :: "form_gemin \<Rightarrow> bool" where
  "validateForm f \<longleftrightarrow> validateForm_errors f = []"

section \<open>JSON values and the built-in operations the scripts call\<close>

text \<open>
  A value as \<open>JSON.parse\<close> returns it. A number is the real number the double denotes.
  What \<open>JSON.stringify\<close> writes into storage is identified with the value it denotes.
\<close>

datatype json =
    JNull
  | JBool bool
  | JNum real
  | JStr jsstring
  | JArr "json list"
  | JObj "(jsstring \<times> json) list"

text \<open>
  \<open>v.name\<close> for a value other than \<open>null\<close>; \<open>None\<close> is \<open>undefined\<close>. Reading a property of
  \<open>null\<close> throws a TypeError, which every caller below handles before it calls \<open>property\<close>.
  An object holds each name once, as \<open>JSON.parse\<close> leaves it.
\<close>

fun property :: "json \<Rightarrow> string \<Rightarrow> json option" where
  "property (JObj members) name = map_of members (js name)"
| "property _ name = None"

fun truthy :: "json option \<Rightarrow> bool" where
  "truthy None = False"
| "truthy (Some JNull) = False"
| "truthy (Some (JBool b)) = b"
| "truthy (Some (JNum x)) = (x \<noteq> 0)"
| "truthy (Some (JStr s)) = (s \<noteq> [])"
| "truthy (Some (JArr xs)) = True"
| "truthy (Some (JObj members)) = True"

text \<open>\<open>a || b\<close>\<close>
definition or_else :: "json option \<Rightarrow> json option \<Rightarrow> json option" where
  "or_else a b = (if truthy a then a else b)"

text \<open>
  The operations of the JavaScript runtime that the scripts call and that are not string
  processing of their own: \<open>String.prototype.toUpperCase\<close>, \<open>Number.prototype.toFixed(2)\<close>
  and the text that the conversion to a string gives for a value that is not a string,
  where the conversion returns (in a template literal or an assignment to
  \<open>textContent\<close>). They are parameters of the model.
\<close>

record builtins =
  toUpperCase :: "jsstring \<Rightarrow> jsstring"
  toFixed2 :: "real \<Rightarrow> jsstring"
  ToString :: "json \<Rightarrow> jsstring"

text \<open>
  The conversion of a value to a string throws a TypeError where it finds nothing to
  call: for an object with a member \<open>toString\<close> of its own (no JSON value can be
  called, and the inherited \<open>valueOf\<close> returns the object), and for an array with an
  element for which it throws (\<open>join\<close> converts every element but \<open>null\<close>).
\<close>

fun ToString_throws :: "json \<Rightarrow> bool" where
  "ToString_throws (JObj members) = (map_of members (js ''toString'') \<noteq> None)"
| "ToString_throws (JArr xs) = list_ex ToString_throws xs"
| "ToString_throws JNull = False"
| "ToString_throws (JBool b) = False"
| "ToString_throws (JNum x) = False"
| "ToString_throws (JStr s) = False"

text \<open>The conversion of a value to a string; \<open>None\<close> is the TypeError thrown.\<close>

definition to_string :: "builtins \<Rightarrow> json \<Rightarrow> jsstring option" where
  "to_string env v =
     (if ToString_throws v then None
      else Some (case v of JStr s \<Rightarrow> s | _ \<Rightarrow> ToString env v))"

text \<open>\<open>`${v}`\<close> in a template literal; \<open>None\<close> is the TypeError thrown.\<close>
definition interpolate :: "builtins \<Rightarrow> json option \<Rightarrow> jsstring option" where
  "interpolate env v =
     (case v of None \<Rightarrow> Some (js ''undefined'') | Some w \<Rightarrow> to_string env w)"

text \<open>Whether the conversion of a value, or of \<open>undefined\<close>, to a string returns.\<close>
definition converts :: "json option \<Rightarrow> bool" where
  "converts v = (case v of None \<Rightarrow> True | Some w \<Rightarrow> \<not> ToString_throws w)"

text \<open>The decimal digits of an integer, as in \<open>`${resp.status}`\<close> and \<open>xs.length\<close> shown as text.\<close>

fun decimal :: "nat \<Rightarrow> jsstring" where
  "decimal n = (if n < 10 then [48 + n] else decimal (n div 10) @ [48 + n mod 10])"

declare decimal.simps [simp del]

text \<open>\<open>s.startsWith(p)\<close>\<close>
definition startsWith :: "jsstring \<Rightarrow> jsstring \<Rightarrow> bool" where
  "startsWith s p \<longleftrightarrow> take (length p) s = p"

section \<open>The page: storage, navigation, alerts, requests and the submit button\<close>

record request =
  req_url :: string
  req_method :: string
  req_headers :: "(string \<times> string) list"
  req_body :: json

text \<open>
  The response to \<open>fetch\<close>: the status and the body, \<open>None\<close> when the body is not JSON
  (\<open>response.json()\<close> rejects). A \<open>fetch\<close> that rejects is the response \<open>None\<close>.
\<close>

record response =
  status :: nat
  resp_body :: "json option"

definition ok :: "response \<Rightarrow> bool" where
  "ok r \<longleftrightarrow> 200 \<le> status r \<and> status r \<le> 299"

record page =
  sessionStorage :: "string \<rightharpoonup> json"
  localStorage :: "string \<rightharpoonup> json"
  location :: "string option"
  alerts :: "jsstring list"
  fetched :: "request list"
  field_errors :: "(string \<times> jsstring) list"

text \<open>
  The submit button: \<open>disabled\<close>, its content (\<open>innerHTML\<close> or \<open>textContent\<close>),
  \<open>dataset.originalText\<close> and whether it has the class \<open>loading\<close>.
\<close>

record button =
  disabled :: bool
  content :: jsstring
  originalText :: "jsstring option"
  loading :: bool

definition API_URL :: string where
  "API_URL = ''http://127.0.0.1:5000/api/scan''"

text \<open>
  \<open>fetch(API_URL, { method: 'POST', headers: { 'Content-Type': 'application/json' },
  body: JSON.stringify(scanData) })\<close>, the same call in the three scripts.
\<close>

definition post_json :: "json \<Rightarrow> request" where
  "post_json scanData =
     \<lparr>req_url = API_URL, req_method = ''POST'',
      req_headers = [(''Content-Type'', ''application/json'')], req_body = scanData\<rparr>"

definition do_fetch :: "json \<Rightarrow> page \<Rightarrow> page" where
  "do_fetch scanData p = p\<lparr>fetched := fetched p @ [post_json scanData]\<rparr>"

definition alert :: "jsstring \<Rightarrow> page \<Rightarrow> page" where
  "alert msg p = p\<lparr>alerts := alerts p @ [msg]\<rparr>"

text \<open>What a submit handler decides before any request is made.\<close>

datatype 'a attempt =
    Blocked "(string \<times> jsstring) list"
  | Threw
  | Proceed 'a

section \<open>Submitting a scan\<close>

subsection \<open>script.js\<close>

text \<open>
  What the submit handler of script.js reads: the first target element found (its \<open>value\<close>
  and \<open>textContent\<close>; an element without a \<open>value\<close> has the empty one), the value of the
  checked protocol radio button, of the port-mode select and of the custom-ports input,
  and whether the terms checkbox is checked. \<open>None\<close> is an element that is not on the page;
  the handler guards every one of them.
\<close>

record element =
  el_value :: jsstring
  el_textContent :: jsstring

record form =
  targetInput :: "element option"
  protocolEl :: "jsstring option"
  portModeEl :: "jsstring option"
  customPortsEl :: "jsstring option"
  termsCheckbox :: "bool option"

text \<open>Lines 187 to 230: validation, each failure ending the handler with an \<open>alert\<close>, and the payload.\<close>

definition scanForm_submit :: "form \<Rightarrow> json attempt" where
  "scanForm_submit f =
     (let target = (case targetInput f of
                      None \<Rightarrow> []
                    | Some el \<Rightarrow>
                        if el_value el \<noteq> [] then trim (el_value el)
                        else if el_textContent el \<noteq> [] then trim (el_textContent el)
                        else []);
          protocol = (case protocolEl f of Some v \<Rightarrow> v | None \<Rightarrow> js ''tcp'');
          port_mode = (case portModeEl f of Some v \<Rightarrow> v | None \<Rightarrow> js ''top100'');
          ports = (case customPortsEl f of
                     Some v \<Rightarrow> if port_mode = js ''custom'' then trim v else []
                   | None \<Rightarrow> [])
      in case validateTarget target of
           Some targetErr \<Rightarrow> Blocked [(''alert'', targetErr)]
         | None \<Rightarrow>
             (case (if port_mode = js ''custom'' then validatePorts ports else None) of
                Some portsErr \<Rightarrow> Blocked [(''alert'', portsErr)]
              | None \<Rightarrow>
                  if termsCheckbox f = Some False
                  then Blocked [(''alert'', js ''You must agree to the Terms of Service.'')]
                  else Proceed (JObj
                    [(js ''target'', JStr target),
                     (js ''protocol'', JStr protocol),
                     (js ''port_mode'', JStr port_mode),
                     (js ''ports'', JStr (if port_mode = js ''custom'' then ports else []))])))"

text \<open>
  \<open>submitScan\<close>, lines 44 to 83: before the \<open>try\<close>, the \<open>try\<close> with its \<open>catch\<close>, and the
  \<open>finally\<close>. Whatever throws inside the \<open>try\<close> (a \<open>fetch\<close> that rejects, a body that is not
  JSON, the property of \<open>null\<close>, a template literal whose value does not convert) ends in
  the \<open>catch\<close>.
\<close>

definition submitScan_begin :: "button \<Rightarrow> button" where
  "submitScan_begin b =
     b\<lparr>disabled := True, originalText := Some (content b), content := js ''Scanning...''\<rparr>"

definition submitScan_try :: "builtins \<Rightarrow> json \<Rightarrow> response option \<Rightarrow> page \<Rightarrow> page" where
  "submitScan_try env scanData resp p =
     (let p1 = do_fetch scanData p;
          caught = alert (js ''Network Error: Could not connect to backend. Is app.py running on http://127.0.0.1:5000 ?'') p1
      in case resp of
           None \<Rightarrow> caught
         | Some r \<Rightarrow>
             (case resp_body r of
                None \<Rightarrow> caught
              | Some json \<Rightarrow>
                  if \<not> ok r then
                    (if json = JNull then caught
                     else
                       let msg = or_else (property json ''error'')
                                   (Some (JStr (js ''Scan failed with status '' @ decimal (status r))))
                       in case interpolate env msg of
                            None \<Rightarrow> caught
                          | Some text \<Rightarrow> alert (js ''Scan Error: '' @ text) p1)
                  else p1\<lparr>sessionStorage := (sessionStorage p1)(''scanResults'' \<mapsto> json),
                          location := Some ''results.html''\<rparr>))"

definition submitScan_finally :: "button \<Rightarrow> button" where
  "submitScan_finally b =
     b\<lparr>disabled := False,
       content := (case originalText b of
                     Some t \<Rightarrow> if t \<noteq> [] then t else js ''Start Scan''
                   | None \<Rightarrow> js ''Start Scan'')\<rparr>"

definition submitScan ::
  "builtins \<Rightarrow> json \<Rightarrow> button option \<Rightarrow> response option \<Rightarrow> page \<Rightarrow> page \<times> button option" where
  "submitScan env scanData startButton resp p =
     (submitScan_try env scanData resp p,
      map_option (\<lambda>b. submitScan_finally (submitScan_begin b)) startButton)"

definition scanForm_onsubmit ::
  "builtins \<Rightarrow> form \<Rightarrow> button option \<Rightarrow> response option \<Rightarrow> page \<Rightarrow> page \<times> button option" where
  "scanForm_onsubmit env f startScanBtn resp p =
     (case scanForm_submit f of
        Blocked errs \<Rightarrow> (foldl (\<lambda>q e. alert (snd e) q) p errs, startScanBtn)
      | Threw \<Rightarrow> (p, startScanBtn)
      | Proceed payload \<Rightarrow> submitScan env payload startScanBtn resp p)"

subsection \<open>script1.js\<close>

text \<open>
  What the submit handler of script1.js reads, all without a guard: the values of
  \<open>#target-ip\<close>, \<open>#port-mode\<close> and \<open>#custom-ports\<close>, whether \<open>#terms-agree\<close> is checked, and
  the value of the checked protocol radio button; with none checked the handler throws.
\<close>

record form_s1 =
  target_ip :: jsstring
  port_mode :: jsstring
  custom_ports :: jsstring
  terms_agree :: bool
  protocol_s1 :: "jsstring option"

definition scanForm_errors_s1 :: "form_s1 \<Rightarrow> (string \<times> jsstring) list" where
  "scanForm_errors_s1 f =
     (case validateTarget_s1 (target_ip f) of
        Some targetError \<Rightarrow> [(''target-ip-error'', targetError)] | None \<Rightarrow> []) @
     (if port_mode f = js ''custom'' then
        (case validatePorts_s1 (custom_ports f) of
           Some portError \<Rightarrow> [(''custom-ports-error'', portError)] | None \<Rightarrow> [])
      else []) @
     (if \<not> terms_agree f
      then [(''terms-error'', js ''You must agree to the terms of service.'')] else [])"

definition scanForm_submit_s1 :: "form_s1 \<Rightarrow> json attempt" where
  "scanForm_submit_s1 f =
     (let portMode = port_mode f;
          portsToScan = (if portMode = js ''custom'' then custom_ports f else portMode)
      in if scanForm_errors_s1 f \<noteq> [] then Blocked (scanForm_errors_s1 f)
         else case protocol_s1 f of
                None \<Rightarrow> Threw
              | Some protocol \<Rightarrow>
                  Proceed (JObj
                    [(js ''target'', JStr (target_ip f)),
                     (js ''protocol'', JStr protocol),
                     (js ''port_mode'', JStr portMode),
                     (js ''ports'', JStr portsToScan)]))"

definition submitScan_begin_s1 :: "button \<Rightarrow> button" where
  "submitScan_begin_s1 b =
     b\<lparr>disabled := True, content := js ''Scanning... Please wait (up to 120s)'', loading := True\<rparr>"

definition submitScan_try_s1 :: "builtins \<Rightarrow> json \<Rightarrow> response option \<Rightarrow> page \<Rightarrow> page" where
  "submitScan_try_s1 env scanData resp p =
     (let p1 = do_fetch scanData p;
          caught = alert (js ''Network Error: Could not connect to the Python backend. Ensure 'app.py' is running on http://127.0.0.1:5000.'') p1
      in case resp of
           None \<Rightarrow> caught
         | Some r \<Rightarrow>
             (case resp_body r of
                None \<Rightarrow> caught
              | Some result \<Rightarrow>
                  if ok r then
                    p1\<lparr>localStorage := (localStorage p1)(''scanResults'' \<mapsto> result),
                       location := Some ''results.html''\<rparr>
                  else if result = JNull then caught
                  else
                    let errorMessage = or_else (property result ''error'')
                                         (Some (JStr (js ''An unknown error occurred during scanning.'')))
                    in case interpolate env errorMessage of
                         None \<Rightarrow> caught
                       | Some text \<Rightarrow> alert (js ''Scan Error: '' @ text) p1))"

definition submitScan_finally_s1 :: "button \<Rightarrow> button" where
  "submitScan_finally_s1 b = b\<lparr>disabled := False, content := js ''Start Scan'', loading := False\<rparr>"

definition submitScan_s1 ::
  "builtins \<Rightarrow> json \<Rightarrow> button \<Rightarrow> response option \<Rightarrow> page \<Rightarrow> page \<times> button" where
  "submitScan_s1 env scanData startScanBtn resp p =
     (submitScan_try_s1 env scanData resp p,
      submitScan_finally_s1 (submitScan_begin_s1 startScanBtn))"

definition scanForm_onsubmit_s1 ::
  "builtins \<Rightarrow> form_s1 \<Rightarrow> button \<Rightarrow> response option \<Rightarrow> page \<Rightarrow> page \<times> button" where
  "scanForm_onsubmit_s1 env f startScanBtn resp p =
     (case scanForm_submit_s1 f of
        Blocked errs \<Rightarrow> (p\<lparr>field_errors := errs\<rparr>, startScanBtn)
      | Threw \<Rightarrow> (p\<lparr>field_errors := []\<rparr>, startScanBtn)
      | Proceed scanData \<Rightarrow> submitScan_s1 env scanData startScanBtn resp (p\<lparr>field_errors := []\<rparr>))"

subsection \<open>scriptgemin.js\<close>

text \<open>Lines 138 to 165 of \<open>handleScanSubmission\<close>: validation and the request data.\<close>

definition handleScanSubmission_scanData :: "form_gemin \<Rightarrow> json attempt" where
  "handleScanSubmission_scanData f =
     (if \<not> validateForm f then Blocked (validateForm_errors f)
      else
        let ipHost = trim (ip_host f) in
        case protocol_gemin f of
          None \<Rightarrow> Threw
        | Some protocol \<Rightarrow>
            let portSelect = port_select f;
                portsList = (if portSelect = js ''custom'' then trim (ports_list f) else portSelect)
            in Proceed (JObj
                 [(js ''target_ip'', JStr ipHost),
                  (js ''protocol'', JStr protocol),
                  (js ''ports_list'', JStr portsList)]))"

definition handleScanSubmission_begin :: "button \<Rightarrow> button" where
  \<open>handleScanSubmission_begin b =
     b\<lparr>disabled := True,
       content := js ''<i data-lucide="loader" class="animate-spin mr-2"></i> Scanning...''\<rparr>\<close>

definition handleScanSubmission_try :: "builtins \<Rightarrow> json \<Rightarrow> response option \<Rightarrow> page \<Rightarrow> page" where
  "handleScanSubmission_try env scanData resp p =
     (let p1 = do_fetch scanData p;
          caught = alert (js ''Network Error: Could not connect to the Python backend. Ensure 'app.py' is running on http://127.0.0.1:5000.'') p1
      in case resp of
           None \<Rightarrow> caught
         | Some r \<Rightarrow>
             if \<not> ok r then caught
             else
               (case resp_body r of
                  None \<Rightarrow> caught
                | Some resultJson \<Rightarrow>
                    if resultJson = JNull then caught
                    else if truthy (property resultJson ''error'')
                    then (case interpolate env (property resultJson ''error'') of
                            None \<Rightarrow> caught
                          | Some text \<Rightarrow> alert (js ''Scan Error: '' @ text) p1)
                    else p1\<lparr>sessionStorage := (sessionStorage p1)(''scanResults'' \<mapsto> resultJson),
                            location := Some ''results.html''\<rparr>))"

definition handleScanSubmission_finally :: "jsstring \<Rightarrow> button \<Rightarrow> button" where
  "handleScanSubmission_finally original b = b\<lparr>disabled := False, content := original\<rparr>"

definition handleScanSubmission ::
  "builtins \<Rightarrow> form_gemin \<Rightarrow> button \<Rightarrow> response option \<Rightarrow> page \<Rightarrow> page \<times> button" where
  "handleScanSubmission env f startScanBtn resp p =
     (case handleScanSubmission_scanData f of
        Blocked errs \<Rightarrow> (p\<lparr>field_errors := errs\<rparr>, startScanBtn)
      | Threw \<Rightarrow> (p\<lparr>field_errors := []\<rparr>, startScanBtn)
      | Proceed scanData \<Rightarrow>
          (handleScanSubmission_try env scanData resp (p\<lparr>field_errors := []\<rparr>),
           handleScanSubmission_finally (content startScanBtn)
             (handleScanSubmission_begin startScanBtn)))"

section \<open>The results page\<close>

text \<open>
  The text of the summary elements after \<open>loadResultsPage\<close>; \<open>None\<close> is an element
  whose text the function did not set. The table of ports and the re-scan button come
  after the summary and do not change it.
\<close>

record view =
  target_ip_text :: "jsstring option"
  open_ports_count_text :: "jsstring option"
  scan_duration_text :: "jsstring option"
  protocol_used_text :: "jsstring option"
  ports_scanned_text :: "jsstring option"

definition blank_view :: view where
  "blank_view =
     \<lparr>target_ip_text = None, open_ports_count_text = None, scan_duration_text = None,
      protocol_used_text = None, ports_scanned_text = None\<rparr>"

text \<open>
  \<open>el.textContent = v\<close>: \<open>undefined\<close> and \<open>null\<close> give the empty text, any other value is
  converted to a string; \<open>None\<close> is the TypeError thrown, the text then is not set.
\<close>

definition text_of :: "builtins \<Rightarrow> json option \<Rightarrow> jsstring option" where
  "text_of env v =
     (case v of None \<Rightarrow> Some [] | Some JNull \<Rightarrow> Some [] | Some w \<Rightarrow> to_string env w)"

text \<open>\<open>v.length\<close> for a value other than \<open>null\<close>.\<close>

definition length_of :: "json \<Rightarrow> json option" where
  "length_of v =
     (case v of
        JArr xs \<Rightarrow> Some (JStr (decimal (length xs)))
      | JStr s \<Rightarrow> Some (JStr (decimal (length s)))
      | JObj members \<Rightarrow> property v ''length''
      | _ \<Rightarrow> None)"

text \<open>\<open>s.split(d)\<close> for a separator of one character.\<close>

fun split_on :: "jschar \<Rightarrow> jsstring \<Rightarrow> jsstring list" where
  "split_on d [] = [[]]"
| "split_on d (c # cs) =
     (if c = d then [] # split_on d cs
      else case split_on d cs of [] \<Rightarrow> [[c]] | t # ts \<Rightarrow> (c # t) # ts)"

text \<open>\<open>ts.join(d)\<close> for a separator of one character.\<close>

fun join :: "jschar \<Rightarrow> jsstring list \<Rightarrow> jsstring" where
  "join d [] = []"
| "join d [t] = t"
| "join d (t # u # ts) = t @ d # join d (u # ts)"

subsection \<open>script.js\<close>

text \<open>
  The values of lines 99 to 101: \<open>data.target_ip || data.target || 'N/A'\<close>,
  \<open>(data.open_ports || []).length\<close>, and the duration, a number shown by \<open>toFixed(2)\<close>
  with \<open>s\<close> after it and anything else as \<open>data.scan_duration || 'N/A'\<close>.
\<close>

definition summary_target :: "json \<Rightarrow> json option" where
  "summary_target data =
     or_else (property data ''target_ip'')
       (or_else (property data ''target'') (Some (JStr (js ''N/A''))))"

definition summary_count :: "json \<Rightarrow> json option" where
  "summary_count data =
     (case or_else (property data ''open_ports'') (Some (JArr [])) of
        Some w \<Rightarrow> length_of w | None \<Rightarrow> None)"

definition summary_duration :: "builtins \<Rightarrow> json \<Rightarrow> json option" where
  "summary_duration env data =
     (case property data ''scan_duration'' of
        Some (JNum x) \<Rightarrow> Some (JStr (toFixed2 env x @ js ''s''))
      | d \<Rightarrow> or_else d (Some (JStr (js ''N/A''))))"

text \<open>Lines 104 to 108, the value assigned in line 109.\<close>

definition portsText :: "json \<Rightarrow> json option" where
  "portsText data =
     (case or_else (property data ''ports_list'')
             (or_else (property data ''port_mode'') (Some (JStr (js ''N/A'')))) of
        Some (JStr s) \<Rightarrow>
          if startsWith s (js ''top'') then
            (let num = (if strip_non_digits s \<noteq> [] then strip_non_digits s else js ''100'')
             in Some (JStr (js ''Top '' @ num @ js '' ports'')))
          else Some (JStr s)
      | v \<Rightarrow> v)"

text \<open>
  Lines 88 to 109. The function body is a \<open>try\<close> whose \<open>catch\<close> only logs: a TypeError,
  from a property of \<open>null\<close>, from an assignment whose value does not convert or from
  \<open>toUpperCase\<close> on what is not a string, leaves the elements as they are at that point.
\<close>

definition loadResultsPage :: "builtins \<Rightarrow> json option \<Rightarrow> view" where
  "loadResultsPage env stored =
     (case stored of
        None \<Rightarrow> blank_view\<lparr>target_ip_text := Some (js ''No data available. Please run a scan.'')\<rparr>
      | Some data \<Rightarrow>
          if data = JNull then blank_view
          else
            case text_of env (summary_target data) of
              None \<Rightarrow> blank_view
            | Some target \<Rightarrow>
                let v1 = blank_view\<lparr>target_ip_text := Some target\<rparr> in
                case text_of env (summary_count data) of
                  None \<Rightarrow> v1
                | Some count \<Rightarrow>
                    let v2 = v1\<lparr>open_ports_count_text := Some count\<rparr> in
                    case text_of env (summary_duration env data) of
                      None \<Rightarrow> v2
                    | Some duration \<Rightarrow>
                        let v3 = v2\<lparr>scan_duration_text := Some duration\<rparr> in
                        case or_else (property data ''protocol'') (Some (JStr (js ''tcp''))) of
                          Some (JStr s) \<Rightarrow>
                            let v4 = v3\<lparr>protocol_used_text := Some (toUpperCase env s)\<rparr> in
                            (case text_of env (portsText data) of
                               None \<Rightarrow> v4
                             | Some ports \<Rightarrow> v4\<lparr>ports_scanned_text := Some ports\<rparr>)
                        | _ \<Rightarrow> v3)"

subsection \<open>scriptgemin.js\<close>

text \<open>
  Lines 210 to 231. Nothing catches here: the first statement that throws ends the
  function. \<open>targetIp\<close> in line 220 is not declared anywhere in scope.
\<close>

definition loadResultsPage_gemin :: "builtins \<Rightarrow> json option \<Rightarrow> view" where
  "loadResultsPage_gemin env stored =
     (if \<not> truthy stored
      then blank_view\<lparr>target_ip_text := Some (js ''No data available. Please run a scan.'')\<rparr>
      else case stored of
        None \<Rightarrow> blank_view
      | Some resultsData \<Rightarrow>
          if \<not> truthy (property resultsData ''target_ip'') then blank_view
          else
            case text_of env (property resultsData ''target_ip'') of
              None \<Rightarrow> blank_view
            | Some target \<Rightarrow>
            let v1 = blank_view\<lparr>target_ip_text := Some target\<rparr> in
            case property resultsData ''open_ports'' of
              None \<Rightarrow> v1
            | Some JNull \<Rightarrow> v1
            | Some open_ports \<Rightarrow>
                case text_of env (length_of open_ports) of
                  None \<Rightarrow> v1
                | Some count \<Rightarrow>
                let v2 = v1\<lparr>open_ports_count_text := Some count\<rparr> in
                case property resultsData ''scan_duration'' of
                  Some (JNum x) \<Rightarrow>
                    let v3 = v2\<lparr>scan_duration_text := Some (toFixed2 env x @ js ''s'')\<rparr> in
                    (case property resultsData ''protocol'' of
                       Some (JStr protocol) \<Rightarrow>
                         let v4 = v3\<lparr>protocol_used_text := Some (toUpperCase env protocol)\<rparr> in
                         (case property resultsData ''ports_list'' of
                            Some (JStr portsScannedText) \<Rightarrow>
                              v4\<lparr>ports_scanned_text := Some
                                 (if startsWith portsScannedText (js ''top_'') then
                                    js ''Top '' @
                                    (case split_on underscore portsScannedText of
                                       t0 # t1 # ts \<Rightarrow> t1 | _ \<Rightarrow> js ''undefined'') @
                                    js '' Ports''
                                  else portsScannedText)\<rparr>
                          | _ \<Rightarrow> v4)
                     | _ \<Rightarrow> v3)
                | _ \<Rightarrow> v2)"

section \<open>The statements of the specification, as definitions\<close>

text \<open>
  The port-list grammar in the specification's words: a comma-separated sequence of
  tokens, each a single non-negative integer or two integers joined by a hyphen.
\<close>

definition integer_token :: "jsstring \<Rightarrow> bool" where
  "integer_token t \<longleftrightarrow> t \<noteq> [] \<and> list_all digit t"

definition port_token :: "jsstring \<Rightarrow> bool" where
  "port_token t \<longleftrightarrow>
     (case split_on hyphen t of
        [a] \<Rightarrow> integer_token a
      | [a, b] \<Rightarrow> integer_token a \<and> integer_token b
      | _ \<Rightarrow> False)"

definition port_list_grammar :: "jsstring \<Rightarrow> bool" where
  "port_list_grammar s \<longleftrightarrow> list_all port_token (split_on comma s)"

text \<open>The target validators with the dotted-quad alternative deleted from the pattern.\<close>

definition validateTarget_without_ipv4 :: "jsstring \<Rightarrow> jsstring option" where
  "validateTarget_without_ipv4 target =
     (if target = [] \<or> trim target = [] then Some (js ''Target IP or Host is required.'')
      else if \<not> test (Or hostname_alt ipv6_alt) target then Some (js ''Invalid format for IP/hostname.'')
      else None)"

definition validateTarget_s1_without_ipv4 :: "jsstring \<Rightarrow> jsstring option" where
  "validateTarget_s1_without_ipv4 target =
     (if trim target = [] then Some (js ''Target IP or Host is required.'')
      else if \<not> test (Or hostname_alt ipv6_alt) target
      then Some (js ''Invalid format. Please enter a valid IP or hostname.'')
      else None)"

text \<open>
  The characters of the specification's testable properties: letters, digits, \<open>.\<close> and
  \<open>-\<close>; the set \<open>[A-Za-z0-9.:[]-]\<close>; and the bracketed IPv6 shape.
\<close>

definition letter_digit_dot_hyphen :: "jschar \<Rightarrow> bool" where
  "letter_digit_dot_hyphen c \<longleftrightarrow>
     upper c \<or> lower c \<or> digit c \<or> only CHR ''.'' c \<or> only CHR ''-'' c"

definition target_charset :: "jschar \<Rightarrow> bool" where
  "target_charset c \<longleftrightarrow>
     upper c \<or> lower c \<or> digit c \<or> only CHR ''.'' c \<or> only CHR '':'' c \<or>
     only CHR ''['' c \<or> only CHR '']'' c \<or> only CHR ''-'' c"

definition bracketed_ipv6 :: "jsstring \<Rightarrow> bool" where
  "bracketed_ipv6 s \<longleftrightarrow> test ipv6_alt s"

text \<open>
  The member names of a request body, in the order \<open>JSON.stringify\<close> writes them, and the
  names the specification gives.
\<close>

definition member_names :: "json \<Rightarrow> jsstring list option" where
  "member_names v = (case v of JObj members \<Rightarrow> Some (map fst members) | _ \<Rightarrow> None)"

definition contract_names :: "jsstring list" where
  "contract_names = [js ''target'', js ''protocol'', js ''port_mode'', js ''ports'']"

text \<open>The characters a pattern can consume.\<close>

fun alphabet :: "rx \<Rightarrow> jschar set" where
  "alphabet Never = {}"
| "alphabet Empty = {}"
| "alphabet (Chars p) = {c. p c}"
| "alphabet (Cat r s) = alphabet r \<union> alphabet s"
| "alphabet (Or r s) = alphabet r \<union> alphabet s"
| "alphabet (Many r) = alphabet r"

text \<open>The invariant of a scan request in the specification's data model.\<close>

definition string_member :: "json \<Rightarrow> string \<Rightarrow> jsstring option" where
  "string_member v name = (case property v name of Some (JStr s) \<Rightarrow> Some s | _ \<Rightarrow> None)"

definition ports_invariant :: "json \<Rightarrow> bool" where
  "ports_invariant request \<longleftrightarrow>
     (case (string_member request ''port_mode'', string_member request ''ports'') of
        (Some mode, Some ports) \<Rightarrow>
          if mode = js ''custom''
          then ports \<noteq> [] \<and> port_list_grammar (strip_whitespace ports)
          else ports = []
      | _ \<Rightarrow> False)"

section \<open>An instance for running the model on examples\<close>

text \<open>
  A page on which nothing has happened yet, and an instance of the built-in operations:
  \<open>toUpperCase\<close> as it is on ASCII text, \<open>toFixed(2)\<close> as it is below \<open>10^21\<close> (the
  nearest multiple of a hundredth, a tie going away from zero), and the conversion to
  a string as it is for values whose numbers are integers below \<open>10^21\<close>. The statements
  about the scripts hold for all built-in operations; the instance only serves to
  evaluate them on examples.
\<close>

definition blank_page :: page where
  "blank_page =
     \<lparr>sessionStorage = Map.empty, localStorage = Map.empty, location = None, alerts = [],
      fetched = [], field_errors = []\<rparr>"

definition ascii_toUpperCase :: "jsstring \<Rightarrow> jsstring" where
  "ascii_toUpperCase s = map (\<lambda>c. if lower c then c - 32 else c) s"

definition real_toFixed2 :: "real \<Rightarrow> jsstring" where
  "real_toFixed2 x =
     (let n = nat \<lfloor>\<bar>x\<bar> * 100 + 1 / 2\<rfloor>
      in (if x < 0 then js ''-'' else []) @ decimal (n div 100) @ js ''.'' @
         [48 + (n div 10) mod 10, 48 + n mod 10])"

fun json_ToString :: "json \<Rightarrow> jsstring" where
  "json_ToString JNull = js ''null''"
| "json_ToString (JBool b) = (if b then js ''true'' else js ''false'')"
| "json_ToString (JNum x) = (if x < 0 then js ''-'' else []) @ decimal (nat \<lfloor>\<bar>x\<bar>\<rfloor>)"
| "json_ToString (JStr s) = s"
| "json_ToString (JArr xs) =
     join comma (map (\<lambda>v. case v of JNull \<Rightarrow> [] | _ \<Rightarrow> json_ToString v) xs)"
| "json_ToString (JObj members) = js ''[object Object]''"

definition example_builtins :: builtins where
  "example_builtins =
     \<lparr>toUpperCase = ascii_toUpperCase, toFixed2 = real_toFixed2, ToString = json_ToString\<rparr>"

section \<open>Patterns and their languages\<close>

lemma nullable_lang: "nullable r \<longleftrightarrow> [] \<in> lang r"
  by (induction r) (auto simp: conc_def star_nil)

lemma star_cons_split:
  assumes "x \<in> star A" and "x = c # w"
  shows "\<exists>u v. w = u @ v \<and> c # u \<in> A \<and> v \<in> star A"
  using assms
proof (induction rule: star.induct)
  case star_nil
  then show ?case by simp
next
  case (star_app u v)
  show ?case
  proof (cases u)
    case Nil
    with star_app show ?thesis by simp
  next
    case (Cons a u')
    with star_app.prems have "a = c" and "w = u' @ v" by simp_all
    with star_app.hyps Cons show ?thesis by blast
  qed
qed

lemma star_cons:
  "c # w \<in> star A \<longleftrightarrow> (\<exists>u v. w = u @ v \<and> c # u \<in> A \<and> v \<in> star A)"
proof
  assume "c # w \<in> star A"
  then show "\<exists>u v. w = u @ v \<and> c # u \<in> A \<and> v \<in> star A"
    using star_cons_split by blast
next
  assume "\<exists>u v. w = u @ v \<and> c # u \<in> A \<and> v \<in> star A"
  then obtain u v where "w = u @ v" "c # u \<in> A" "v \<in> star A" by blast
  then show "c # w \<in> star A"
    using star_app [of "c # u" A v] by simp
qed

lemma conc_cons:
  "c # w \<in> conc A B \<longleftrightarrow>
     (\<exists>u v. w = u @ v \<and> c # u \<in> A \<and> v \<in> B) \<or> ([] \<in> A \<and> c # w \<in> B)"
  unfolding conc_def by (auto simp: Cons_eq_append_conv)

lemma lang_deriv: "w \<in> lang (deriv c r) \<longleftrightarrow> c # w \<in> lang r"
proof (induction r arbitrary: w)
  case (Cat r s)
  have "w \<in> conc (lang (deriv c r)) (lang s) \<longleftrightarrow>
          (\<exists>u v. w = u @ v \<and> c # u \<in> lang r \<and> v \<in> lang s)"
    using Cat.IH(1) by (auto simp: conc_def)
  with Cat.IH(2) show ?case
    by (simp add: conc_cons nullable_lang)
next
  case (Many r)
  have "w \<in> conc (lang (deriv c r)) (star (lang r)) \<longleftrightarrow>
          (\<exists>u v. w = u @ v \<and> c # u \<in> lang r \<and> v \<in> star (lang r))"
    using Many.IH by (auto simp: conc_def)
  then show ?case by (simp add: star_cons)
qed auto

lemma test_lang: "test r s \<longleftrightarrow> s \<in> lang r"
  by (induction s arbitrary: r) (simp_all add: nullable_lang lang_deriv)

text \<open>\<open>r+\<close>, \<open>r?\<close> and \<open>r{m,n}\<close> have the languages their notation says.\<close>

lemma lang_Many1: "lang (Many1 r) = conc (lang r) (star (lang r))"
  by (simp add: Many1_def)

lemma lang_Maybe: "lang (Maybe r) = lang r \<union> {[]}"
  by (simp add: Maybe_def)

lemma conc_UN: "conc A (\<Union>k\<in>K. B k) = (\<Union>k\<in>K. conc A (B k))"
  by (auto simp: conc_def)

lemma UN_Suc_interval: "(\<Union>k\<in>{Suc m..Suc n}. f k) = (\<Union>k\<in>{m..n}. f (Suc k))"
proof -
  have "{Suc m..Suc n} = Suc ` {m..n}" by (simp add: image_Suc_atLeastAtMost)
  then show ?thesis by (simp only: image_image)
qed

lemma UN_from_0: "(\<Union>k\<in>{0..Suc n}. f k) = f 0 \<union> (\<Union>k\<in>{0..n}. f (Suc k))"
proof -
  have "{0..Suc n} = insert 0 {Suc 0..Suc n}" by auto
  then have "(\<Union>k\<in>{0..Suc n}. f k) = f 0 \<union> (\<Union>k\<in>{Suc 0..Suc n}. f k)" by simp
  then show ?thesis by (simp only: UN_Suc_interval)
qed

lemma lang_Times: "lang (Times m n r) = (\<Union>k\<in>{m..n}. times_exactly (lang r) k)"
proof (induction m n r rule: Times.induct)
  case (1 r)
  show ?case by simp
next
  case (2 n r)
  then show ?case by (simp only: UN_from_0) (simp add: Maybe_def conc_UN Un_commute)
next
  case (3 m r)
  show ?case by simp
next
  case (4 m n r)
  then show ?case by (simp only: UN_Suc_interval) (simp add: conc_UN)
qed

lemma star_alphabet:
  assumes "s \<in> star A" and "\<And>u. u \<in> A \<Longrightarrow> set u \<subseteq> B"
  shows "set s \<subseteq> B"
  using assms by (induction rule: star.induct) auto

lemma lang_alphabet: "s \<in> lang r \<Longrightarrow> set s \<subseteq> alphabet r"
proof (induction r arbitrary: s)
  case (Many r)
  then show ?case using star_alphabet [of s "lang r" "alphabet r"] by simp
qed (fastforce simp: conc_def)+

lemma alphabet_Times: "alphabet (Times m n r) \<subseteq> alphabet r"
  by (induction m n r rule: Times.induct) (auto simp: Maybe_def)

lemma star_singletons: "s \<in> star {[c] | c. p c} \<longleftrightarrow> list_all p s"
proof
  assume "s \<in> star {[c] | c. p c}"
  then show "list_all p s" by (induction rule: star.induct) auto
next
  assume "list_all p s"
  then show "s \<in> star {[c] | c. p c}"
  proof (induction s)
    case Nil
    show ?case by (rule star_nil)
  next
    case (Cons a s)
    then have "[a] \<in> {[c] | c. p c}" and "s \<in> star {[c] | c. p c}" by auto
    then have "[a] @ s \<in> star {[c] | c. p c}" by (rule star_app)
    then show ?case by simp
  qed
qed

lemma star_singletons_eq: "star {[c] | c. p c} = {s. list_all p s}"
  by (auto simp: star_singletons)

lemma lang_Many_Chars: "lang (Many (Chars p)) = {s. list_all p s}"
  by (simp add: star_singletons_eq)

lemma lang_Many1_Chars: "lang (Many1 (Chars p)) = {s. s \<noteq> [] \<and> list_all p s}"
proof -
  have "conc {[c] | c. p c} {s. list_all p s} = {s. s \<noteq> [] \<and> list_all p s}"
  proof (intro set_eqI iffI)
    fix s assume "s \<in> conc {[c] | c. p c} {s. list_all p s}"
    then show "s \<in> {s. s \<noteq> [] \<and> list_all p s}" by (auto simp: conc_def)
  next
    fix s assume "s \<in> {s. s \<noteq> [] \<and> list_all p s}"
    then obtain a t where "s = a # t" "p a" "list_all p t" by (cases s) auto
    then have "s = [a] @ t" "[a] \<in> {[c] | c. p c}" "t \<in> {s. list_all p s}" by auto
    then show "s \<in> conc {[c] | c. p c} {s. list_all p s}" unfolding conc_def by blast
  qed
  then show ?thesis by (simp add: Many1_def star_singletons_eq)
qed

lemma test_hostname_alt: "test hostname_alt s \<longleftrightarrow> s \<noteq> [] \<and> list_all hostname_class s"
  by (simp add: test_lang hostname_alt_def lang_Many1_Chars)

lemma trim_empty: "trim s = [] \<longleftrightarrow> (\<forall>x\<in>set s. whitespace x)"
proof
  assume "\<forall>x\<in>set s. whitespace x"
  then have h: "dropWhile whitespace s = []" by simp
  show "trim s = []" unfolding trim_def h by simp
next
  assume t: "trim s = []"
  show "\<forall>x\<in>set s. whitespace x"
  proof (rule ccontr)
    assume "\<not> (\<forall>x\<in>set s. whitespace x)"
    then have n: "dropWhile whitespace s \<noteq> []" by simp
    then have "\<not> whitespace (hd (dropWhile whitespace s))" by (rule hd_dropWhile)
    moreover from n have "hd (dropWhile whitespace s) \<in> set (rev (dropWhile whitespace s))" by simp
    moreover from t have "\<forall>x\<in>set (rev (dropWhile whitespace s)). whitespace x"
      unfolding trim_def by (simp only: rev_is_Nil_conv dropWhile_eq_Nil_conv)
    ultimately show False by blast
  qed
qed

section \<open>The target patterns\<close>

lemmas char_classes =
  digit_def lower_def upper_def only_def hostname_class_def hex_colon_class_def
  ports_class_def letter_digit_dot_hyphen_def target_charset_def

lemma hostname_class_not_whitespace: "hostname_class c \<Longrightarrow> \<not> whitespace c"
  by (auto simp: char_classes whitespace_def)

lemma alphabet_ipv4_alt: "alphabet ipv4_alt \<subseteq> {c. hostname_class c}"
proof -
  have "alphabet ipv4_alt \<subseteq> alphabet (Chars digit) \<union> alphabet (Chars (only CHR ''.''))"
    unfolding ipv4_alt_def
    using alphabet_Times [of 3 3 "Cat (Times 1 3 (Chars digit)) (Chars (only CHR ''.''))"]
      alphabet_Times [of 1 3 "Chars digit"]
    by auto
  then show ?thesis by (auto simp: hostname_class_def)
qed

lemma Times_3_3: "Times 3 3 r = Cat r (Cat r (Cat r Empty))"
  by (simp add: numeral_3_eq_3)

lemma Times_1_3: "Times 1 3 r = Cat r (Maybe (Cat r (Maybe (Cat r Empty))))"
  by (simp add: numeral_3_eq_3)

lemma ipv4_alt_not_nullable: "\<not> nullable ipv4_alt"
  by (simp add: ipv4_alt_def Times_3_3 Times_1_3)

lemma ipv4_alt_hostname_alt: "test ipv4_alt s \<Longrightarrow> test hostname_alt s"
proof -
  assume a: "test ipv4_alt s"
  then have "s \<in> lang ipv4_alt" by (simp add: test_lang)
  then have "set s \<subseteq> {c. hostname_class c}"
    using lang_alphabet alphabet_ipv4_alt by blast
  moreover have "s \<noteq> []"
    using a ipv4_alt_not_nullable by (cases s) auto
  ultimately show ?thesis
    by (auto simp: test_hostname_alt list_all_iff)
qed

lemma test_Or: "test (Or r s) w \<longleftrightarrow> test r w \<or> test s w"
  by (simp add: test_lang)

lemma targetRegex_without_ipv4: "test targetRegex s \<longleftrightarrow> test (Or hostname_alt ipv6_alt) s"
  using ipv4_alt_hostname_alt by (auto simp: targetRegex_def test_Or)

lemma targetRegex_s1_without_ipv4: "test targetRegex_s1 s \<longleftrightarrow> test (Or hostname_alt ipv6_alt) s"
  using ipv4_alt_hostname_alt by (auto simp: targetRegex_s1_def test_Or)

lemma alphabet_ipv6_alt: "alphabet ipv6_alt \<subseteq> {c. target_charset c}"
  by (auto simp: ipv6_alt_def Many1_def char_classes)

lemma alphabet_hostname_alt: "alphabet hostname_alt \<subseteq> {c. target_charset c}"
  by (auto simp: hostname_alt_def Many1_def char_classes)

lemma hostname_class_target_charset: "hostname_class c \<Longrightarrow> target_charset c"
  by (auto simp: char_classes)

lemma target_patterns_charset:
  assumes "test targetRegex s \<or> test targetRegex_s1 s"
  shows "list_all target_charset s"
proof -
  from assms have "s \<in> lang hostname_alt \<or> s \<in> lang ipv6_alt \<or> s \<in> lang ipv4_alt"
    by (auto simp: targetRegex_def targetRegex_s1_def test_Or test_lang)
  then have "set s \<subseteq> {c. target_charset c}"
    using lang_alphabet alphabet_hostname_alt alphabet_ipv6_alt alphabet_ipv4_alt
      hostname_class_target_charset by blast
  then show ?thesis by (auto simp: list_all_iff)
qed

lemma hostname_string_accepted:
  assumes "s \<noteq> []" and "list_all letter_digit_dot_hyphen s"
  shows "trim s \<noteq> []" and "test targetRegex s" and "test targetRegex_s1 s"
proof -
  from assms(2) have h: "list_all hostname_class s"
    by (auto simp: list_all_iff letter_digit_dot_hyphen_def hostname_class_def)
  from assms(1) obtain c where "c \<in> set s" by (cases s) auto
  with h have "c \<in> set s" and "\<not> whitespace c"
    by (auto simp: list_all_iff hostname_class_not_whitespace)
  then show "trim s \<noteq> []" by (auto simp: trim_empty)
  from assms(1) h have "test hostname_alt s" by (simp add: test_hostname_alt)
  then show "test targetRegex s" and "test targetRegex_s1 s"
    by (simp_all add: targetRegex_def targetRegex_s1_def test_Or)
qed

section \<open>The port-list patterns\<close>

lemma split_on_not_Nil: "split_on d s \<noteq> []"
  by (induction s) (auto split: list.splits)

lemma split_on_no_separator: "d \<notin> set t \<Longrightarrow> split_on d t = [t]"
  by (induction t) auto

lemma split_on_append: "d \<notin> set t \<Longrightarrow> split_on d (t @ d # rest) = t # split_on d rest"
  by (induction t) (auto split: list.splits simp: split_on_not_Nil)

lemma split_on_tokens: "t \<in> set (split_on d s) \<Longrightarrow> d \<notin> set t"
  by (induction s arbitrary: t) (auto split: if_splits list.splits)

lemma join_split_on: "join d (split_on d s) = s"
proof (induction s)
  case Nil
  show ?case by simp
next
  case (Cons c cs)
  obtain t ts where ts: "split_on d cs = t # ts"
    using split_on_not_Nil [of d cs] by (cases "split_on d cs") auto
  with Cons show ?case by (cases ts) auto
qed

lemma split_on_join:
  "ts \<noteq> [] \<Longrightarrow> \<forall>t\<in>set ts. d \<notin> set t \<Longrightarrow> split_on d (join d ts) = ts"
proof (induction d ts rule: join.induct)
  case (1 d)
  then show ?case by simp
next
  case (2 d t)
  then show ?case by (simp add: split_on_no_separator)
next
  case (3 d t u ts)
  then show ?case by (simp add: split_on_append)
qed

lemma join_Cons: "join d (t # ts) = t @ concat (map ((#) d) ts)"
  by (induction ts arbitrary: t) auto

lemma star_separated:
  "y \<in> star (conc {[d]} T) \<longleftrightarrow> (\<exists>ts. y = concat (map ((#) d) ts) \<and> (\<forall>t\<in>set ts. t \<in> T))"
proof
  assume "y \<in> star (conc {[d]} T)"
  then show "\<exists>ts. y = concat (map ((#) d) ts) \<and> (\<forall>t\<in>set ts. t \<in> T)"
  proof (induction rule: star.induct)
    case star_nil
    have "[] = concat (map ((#) d) []) \<and> (\<forall>t\<in>set []. t \<in> T)" by simp
    then show ?case by blast
  next
    case (star_app u v)
    then obtain t ts where "u = d # t" "t \<in> T" "v = concat (map ((#) d) ts)" "\<forall>t\<in>set ts. t \<in> T"
      by (auto simp: conc_def)
    then have "u @ v = concat (map ((#) d) (t # ts)) \<and> (\<forall>x\<in>set (t # ts). x \<in> T)" by simp
    then show ?case by blast
  qed
next
  assume "\<exists>ts. y = concat (map ((#) d) ts) \<and> (\<forall>t\<in>set ts. t \<in> T)"
  then obtain ts where "y = concat (map ((#) d) ts)" and "\<forall>t\<in>set ts. t \<in> T" by blast
  then show "y \<in> star (conc {[d]} T)"
  proof (induction ts arbitrary: y)
    case Nil
    then show ?case by (simp add: star_nil)
  next
    case (Cons t ts)
    have "d # t \<in> conc {[d]} T" using Cons.prems(2) by (auto simp: conc_def)
    moreover have "concat (map ((#) d) ts) \<in> star (conc {[d]} T)" using Cons by simp
    ultimately have "(d # t) @ concat (map ((#) d) ts) \<in> star (conc {[d]} T)" by (rule star_app)
    with Cons.prems(1) show ?case by simp
  qed
qed

lemma conc_iff: "w \<in> conc A B \<longleftrightarrow> (\<exists>u v. w = u @ v \<and> u \<in> A \<and> v \<in> B)"
  by (auto simp: conc_def)

lemma lang_hyphen: "lang (Chars (only CHR ''-'')) = {[hyphen]}"
  by (auto simp: only_def hyphen_def)

lemma lang_comma: "lang (Chars (only CHR '','')) = {[comma]}"
  by (auto simp: only_def comma_def)

lemma lang_integer: "lang (Many1 (Chars digit)) = {t. integer_token t}"
  by (simp add: lang_Many1_Chars integer_token_def)

lemma integer_token_separator: "integer_token a \<Longrightarrow> \<not> digit d \<Longrightarrow> d \<notin> set a"
  by (auto simp: integer_token_def list_all_iff)

lemma hyphen_comma_not_digit: "\<not> digit hyphen" "\<not> digit comma" "comma \<noteq> hyphen"
  by (simp_all add: digit_def hyphen_def comma_def)

lemma lang_port_item:
  "t \<in> lang port_item \<longleftrightarrow>
     integer_token t \<or> (\<exists>a b. t = a @ hyphen # b \<and> integer_token a \<and> integer_token b)"
proof -
  have "lang port_item =
      conc {t. integer_token t} (conc {[hyphen]} {t. integer_token t} \<union> {[]})"
    unfolding port_item_def Maybe_def
    by (simp only: lang.simps(2,4,5) lang_integer lang_hyphen)
  then show ?thesis by (auto simp: conc_def)
qed

lemma port_token_lang: "port_token t \<longleftrightarrow> t \<in> lang port_item"
proof
  assume "t \<in> lang port_item"
  then consider "integer_token t"
    | a b where "t = a @ hyphen # b" "integer_token a" "integer_token b"
    by (auto simp: lang_port_item)
  then show "port_token t"
  proof cases
    case 1
    then have "split_on hyphen t = [t]"
      by (intro split_on_no_separator integer_token_separator hyphen_comma_not_digit)
    with 1 show ?thesis by (simp add: port_token_def)
  next
    case 2
    then have "hyphen \<notin> set a" and "hyphen \<notin> set b"
      using integer_token_separator [OF _ hyphen_comma_not_digit(1)] by blast+
    with 2 have "split_on hyphen t = [a, b]"
      by (simp add: split_on_append split_on_no_separator)
    with 2 show ?thesis by (simp add: port_token_def)
  qed
next
  assume p: "port_token t"
  have j: "join hyphen (split_on hyphen t) = t" by (rule join_split_on)
  from p consider a where "split_on hyphen t = [a]" "integer_token a"
    | a b where "split_on hyphen t = [a, b]" "integer_token a" "integer_token b"
    by (auto simp: port_token_def split: list.splits)
  then show "t \<in> lang port_item"
  proof cases
    case 1
    with j show ?thesis by (simp add: lang_port_item)
  next
    case 2
    with j have "t = a @ hyphen # b" by simp
    with 2 show ?thesis unfolding lang_port_item by blast
  qed
qed

lemma port_token_no_comma:
  assumes "port_token t"
  shows "comma \<notin> set t"
proof -
  from assms consider "integer_token t"
    | a b where "t = a @ hyphen # b" "integer_token a" "integer_token b"
    by (auto simp: port_token_lang lang_port_item)
  then show ?thesis
  proof cases
    case 1
    then show ?thesis by (intro integer_token_separator hyphen_comma_not_digit)
  next
    case 2
    then have "comma \<notin> set a" and "comma \<notin> set b"
      using integer_token_separator [OF _ hyphen_comma_not_digit(2)] by blast+
    with 2 show ?thesis by (simp add: hyphen_comma_not_digit)
  qed
qed

lemma lang_portsRegex:
  "s \<in> lang portsRegex \<longleftrightarrow> (\<exists>t ts. s = join comma (t # ts) \<and> list_all port_token (t # ts))"
proof -
  have "lang portsRegex = conc (lang port_item) (star (conc {[comma]} (lang port_item)))"
    unfolding portsRegex_def by (simp only: lang.simps(4,6) lang_comma)
  then have "s \<in> lang portsRegex \<longleftrightarrow>
      (\<exists>t v. s = t @ v \<and> t \<in> lang port_item \<and> v \<in> star (conc {[comma]} (lang port_item)))"
    by (simp only: conc_iff)
  then have "s \<in> lang portsRegex \<longleftrightarrow>
      (\<exists>t ts. s = t @ concat (map ((#) comma) ts) \<and> t \<in> lang port_item \<and> (\<forall>x\<in>set ts. x \<in> lang port_item))"
    by (simp only: star_separated) blast
  then show ?thesis
    by (simp add: join_Cons port_token_lang list_all_iff)
qed

lemma portsRegex_grammar: "test portsRegex s \<longleftrightarrow> port_list_grammar s"
proof
  assume "test portsRegex s"
  then obtain t ts where s: "s = join comma (t # ts)" and a: "list_all port_token (t # ts)"
    by (auto simp: test_lang lang_portsRegex)
  from a have "\<forall>x\<in>set (t # ts). comma \<notin> set x"
    using port_token_no_comma by (auto simp: list_all_iff)
  then have "split_on comma s = t # ts"
    unfolding s by (intro split_on_join) auto
  with a show "port_list_grammar s" by (simp add: port_list_grammar_def)
next
  assume g: "port_list_grammar s"
  obtain t ts where ts: "split_on comma s = t # ts"
    using split_on_not_Nil [of comma s] by (cases "split_on comma s") auto
  have "join comma (split_on comma s) = s" by (rule join_split_on)
  with ts have "s = join comma (t # ts)" by simp
  moreover from g ts have "list_all port_token (t # ts)" by (simp add: port_list_grammar_def)
  ultimately show "test portsRegex s" unfolding test_lang lang_portsRegex by blast
qed

lemma star_mono: "v \<in> star A \<Longrightarrow> A \<subseteq> B \<Longrightarrow> v \<in> star B"
  by (induction rule: star.induct) (auto intro: star_nil star_app)

lemma star_restrict:
  assumes "v \<in> star A" and "list_all q v"
    and "\<And>u. u \<in> A \<Longrightarrow> list_all q u \<Longrightarrow> u \<in> B"
  shows "v \<in> star B"
  using assms(1,2)
proof (induction rule: star.induct)
  case star_nil
  show ?case by (rule star.star_nil)
next
  case (star_app u v)
  then have "u \<in> B" and "v \<in> star B" using assms(3) by auto
  then show ?case by (rule star.star_app)
qed

lemma star_whitespace: "star (lang (Chars whitespace)) = {w. list_all whitespace w}"
  by (simp add: star_singletons_eq)

lemma portListRegex_stripped:
  assumes "list_all (\<lambda>c. \<not> whitespace c) w"
  shows "test portListRegex w \<longleftrightarrow> test portsRegex w"
proof -
  let ?P = "lang port_item"
  let ?A = "conc {[comma]} (conc {w. list_all whitespace w} ?P)"
  let ?B = "conc {[comma]} ?P"
  have l1: "lang portListRegex = conc ?P (star ?A)"
    unfolding portListRegex_def by (simp only: lang.simps(4,6) lang_comma star_whitespace)
  have l2: "lang portsRegex = conc ?P (star ?B)"
    unfolding portsRegex_def by (simp only: lang.simps(4,6) lang_comma)
  have sub: "?B \<subseteq> ?A"
  proof
    fix x assume "x \<in> ?B"
    then obtain t where "x = [comma] @ ([] @ t)" and "t \<in> ?P" by (auto simp: conc_def)
    moreover have "[] \<in> {w. list_all whitespace w}" by simp
    ultimately show "x \<in> ?A" unfolding conc_iff by blast
  qed
  have shrink: "u \<in> ?B" if "u \<in> ?A" and "list_all (\<lambda>c. \<not> whitespace c) u" for u
  proof -
    from that(1) obtain ws t where u: "u = comma # ws @ t" and ws: "list_all whitespace ws" and t: "t \<in> ?P"
      by (auto simp: conc_def)
    from that(2) u have "list_all (\<lambda>c. \<not> whitespace c) ws" by simp
    with ws have "ws = []" by (cases ws) auto
    with u t show ?thesis by (auto simp: conc_def)
  qed
  show ?thesis
  proof
    assume "test portListRegex w"
    then obtain u v where w: "w = u @ v" and u: "u \<in> ?P" and v: "v \<in> star ?A"
      by (auto simp: test_lang l1 conc_iff)
    from assms w have "list_all (\<lambda>c. \<not> whitespace c) v" by simp
    with v have "v \<in> star ?B" using shrink by (rule star_restrict)
    with w u show "test portsRegex w" unfolding test_lang l2 conc_iff by blast
  next
    assume "test portsRegex w"
    then obtain u v where w: "w = u @ v" and u: "u \<in> ?P" and v: "v \<in> star ?B"
      by (auto simp: test_lang l2 conc_iff)
    from v sub have "v \<in> star ?A" by (rule star_mono)
    with w u show "test portListRegex w" unfolding test_lang l1 conc_iff by blast
  qed
qed

lemma strip_whitespace_clean: "list_all (\<lambda>c. \<not> whitespace c) (strip_whitespace s)"
  by (simp add: strip_whitespace_def list_all_iff)

lemma port_list_grammar_not_Nil: "\<not> port_list_grammar []"
  by (simp add: port_list_grammar_def port_token_def integer_token_def)

lemma strip_whitespace_Nil: "strip_whitespace s = [] \<longleftrightarrow> trim s = []"
  by (auto simp: strip_whitespace_def trim_empty filter_empty_conv)

lemma validatePorts_grammar: "validatePorts s = None \<longleftrightarrow> port_list_grammar (strip_whitespace s)"
proof (cases "trim s = []")
  case True
  then have "strip_whitespace s = []" by (simp add: strip_whitespace_Nil)
  with True show ?thesis by (simp add: validatePorts_def port_list_grammar_not_Nil)
next
  case False
  then have "s \<noteq> []" by (auto simp: trim_def)
  with False show ?thesis by (simp add: validatePorts_def portsRegex_grammar)
qed

lemma validatePorts_s1_grammar:
  "validatePorts_s1 s = None \<longleftrightarrow> port_list_grammar (strip_whitespace s)"
proof (cases "s = []")
  case True
  then show ?thesis
    by (simp add: validatePorts_s1_def port_list_grammar_not_Nil strip_whitespace_def)
next
  case False
  then show ?thesis
    by (simp add: validatePorts_s1_def portListRegex_stripped strip_whitespace_clean
        portsRegex_grammar)
qed

section \<open>Evaluating the model on examples\<close>

lemmas run_strings =
  js_def trim_def strip_whitespace_def strip_non_digits_def whitespace_def hyphen_def comma_def
  underscore_def char_classes

lemmas run_patterns =
  Many1_def Maybe_def Times_3_3 Times_1_3 hostname_alt_def ipv6_alt_def ipv4_alt_def
  targetRegex_def targetRegex_s1_def port_item_def portsRegex_def portListRegex_def
  portsPattern_def

section \<open>The validators\<close>

text \<open>
  Claim C5, amended to \<open>validatePorts\<close> of script.js and of script1.js. \<open>"21,80,443-445"\<close> and
  \<open>"21, 80 , 443-445"\<close> return no error, \<open>"21,,80"\<close> fails with the malformed-list message
  and the empty string with the required message; and any input is accepted exactly
  when, with all whitespace removed, it is a comma-separated sequence of tokens, each
  one non-negative integer or two joined by a hyphen.
\<close>

theorem C5_validatePorts:
  "validatePorts (js ''21,80,443-445'') = None \<and>
   validatePorts (js ''21, 80 , 443-445'') = None \<and>
   validatePorts (js ''21,,80'') =
     Some (js ''Invalid port list. Use comma separated numbers or ranges (e.g., 21,80,443-445).'') \<and>
   validatePorts (js []) = Some (js ''Custom port list is required.'') \<and>
   (validatePorts s = None \<longleftrightarrow> port_list_grammar (strip_whitespace s)) \<and>
   validatePorts_s1 (js ''21,80,443-445'') = None \<and>
   validatePorts_s1 (js ''21, 80 , 443-445'') = None \<and>
   validatePorts_s1 (js ''21,,80'') =
     Some (js ''Invalid port list. Use comma-separated ports or ranges (e.g., 21, 80, 443-445).'') \<and>
   validatePorts_s1 (js []) = Some (js ''Custom port list is required.'') \<and>
   (validatePorts_s1 s = None \<longleftrightarrow> port_list_grammar (strip_whitespace s))"
proof (intro conjI)
  show "validatePorts (js ''21,80,443-445'') = None"
    by (simp add: validatePorts_def run_strings run_patterns)
  show "validatePorts (js ''21, 80 , 443-445'') = None"
    by (simp add: validatePorts_def run_strings run_patterns)
  show "validatePorts (js ''21,,80'') =
     Some (js ''Invalid port list. Use comma separated numbers or ranges (e.g., 21,80,443-445).'')"
    by (simp add: validatePorts_def run_strings run_patterns)
  show "validatePorts (js []) = Some (js ''Custom port list is required.'')"
    by (simp add: validatePorts_def run_strings)
  show "validatePorts s = None \<longleftrightarrow> port_list_grammar (strip_whitespace s)"
    by (rule validatePorts_grammar)
  show "validatePorts_s1 (js ''21,80,443-445'') = None"
    by (simp add: validatePorts_s1_def run_strings run_patterns)
  show "validatePorts_s1 (js ''21, 80 , 443-445'') = None"
    by (simp add: validatePorts_s1_def run_strings run_patterns)
  show "validatePorts_s1 (js ''21,,80'') =
     Some (js ''Invalid port list. Use comma-separated ports or ranges (e.g., 21, 80, 443-445).'')"
    by (simp add: validatePorts_s1_def run_strings run_patterns)
  show "validatePorts_s1 (js []) = Some (js ''Custom port list is required.'')"
    by (simp add: validatePorts_s1_def run_strings)
  show "validatePorts_s1 s = None \<longleftrightarrow> port_list_grammar (strip_whitespace s)"
    by (rule validatePorts_s1_grammar)
qed

theorem C5_validatePorts_witness:
  "port_list_grammar (strip_whitespace (js ''8000-8100, 443'')) \<and>
   validatePorts (js ''8000-8100, 443'') = None \<and>
   validatePorts_s1 (js ''8000-8100, 443'') = None"
proof -
  have "port_list_grammar (strip_whitespace (js ''8000-8100, 443''))"
    by (simp add: port_list_grammar_def port_token_def integer_token_def run_strings)
  then show ?thesis
    using C5_validatePorts [of "js ''8000-8100, 443''"] by simp
qed

text \<open>
  Claim C5 as stated fails for the port check of \<open>validateForm\<close> in scriptgemin.js, whose
  pattern is one character class: with the custom mode selected, \<open>"21,,80"\<close> raises no
  error.
\<close>

theorem C5_validateForm_counterexample:
  "validateForm_errors
     \<lparr>ip_host = js ''example.com'', port_select = js ''custom'', ports_list = js ''21,,80'',
      terms_agreement = True, protocol_gemin = Some (js ''tcp'')\<rparr> = [] \<and>
   \<not> port_list_grammar (strip_whitespace (js ''21,,80''))"
  by (simp add: validateForm_errors_def port_list_grammar_def port_token_def integer_token_def
      run_strings run_patterns)

text \<open>
  Claim C7, amended: every non-empty string of letters, digits, \<open>.\<close> and \<open>-\<close> passes
  \<open>validateTarget\<close> of script.js and of script1.js.
\<close>

theorem C7_validateTarget_accepts:
  assumes "s \<noteq> []" and "list_all letter_digit_dot_hyphen s"
  shows "validateTarget s = None \<and> validateTarget_s1 s = None"
  using assms hostname_string_accepted [OF assms]
  by (simp add: validateTarget_def validateTarget_s1_def)

theorem C7_validateTarget_accepts_witness:
  "js ''scan-me.example.org'' \<noteq> [] \<and>
   list_all letter_digit_dot_hyphen (js ''scan-me.example.org'') \<and>
   validateTarget (js ''scan-me.example.org'') = None \<and>
   validateTarget_s1 (js ''scan-me.example.org'') = None"
proof -
  have 1: "js ''scan-me.example.org'' \<noteq> []" by (simp add: js_def)
  have 2: "list_all letter_digit_dot_hyphen (js ''scan-me.example.org'')"
    by (simp add: run_strings)
  from 1 2 C7_validateTarget_accepts [OF 1 2] show ?thesis by simp
qed

text \<open>
  Claim C7 as stated fails at the empty string, which has no character outside the
  set: both validators answer that the target is required.
\<close>

theorem C7_empty_string_counterexample:
  "list_all letter_digit_dot_hyphen [] \<and>
   validateTarget [] = Some (js ''Target IP or Host is required.'') \<and>
   validateTarget_s1 [] = Some (js ''Target IP or Host is required.'')"
  by (simp add: validateTarget_def validateTarget_s1_def trim_def)

text \<open>
  Claim C8, amended: a string with a character outside \<open>[A-Za-z0-9.:[]-]\<close> (which then
  is not of the bracketed IPv6 shape) fails \<open>validateTarget\<close> of script.js and of
  script1.js, with the invalid-format message unless it is made of whitespace only,
  and with the target-required message when it is.
\<close>

theorem C8_validateTarget_rejects:
  assumes "\<not> list_all target_charset s" and "\<not> bracketed_ipv6 s"
  shows "validateTarget s =
           Some (if list_all whitespace s then js ''Target IP or Host is required.''
                 else js ''Invalid format for IP/hostname.'') \<and>
         validateTarget_s1 s =
           Some (if list_all whitespace s then js ''Target IP or Host is required.''
                 else js ''Invalid format. Please enter a valid IP or hostname.'')"
proof -
  from assms(1) have n: "\<not> test targetRegex s" "\<not> test targetRegex_s1 s"
    using target_patterns_charset by blast+
  from assms(1) have "s \<noteq> []" by auto
  with n show ?thesis
    by (simp add: validateTarget_def validateTarget_s1_def trim_empty list_all_iff)
qed

theorem C8_validateTarget_rejects_witness:
  "\<not> list_all target_charset (js ''host;reboot'') \<and> \<not> bracketed_ipv6 (js ''host;reboot'') \<and>
   validateTarget (js ''host;reboot'') = Some (js ''Invalid format for IP/hostname.'') \<and>
   validateTarget_s1 (js ''host;reboot'') =
     Some (js ''Invalid format. Please enter a valid IP or hostname.'')"
proof -
  have 1: "\<not> list_all target_charset (js ''host;reboot'')" by (simp add: run_strings)
  have 2: "\<not> bracketed_ipv6 (js ''host;reboot'')"
    by (simp add: bracketed_ipv6_def run_strings run_patterns)
  have 3: "\<not> list_all whitespace (js ''host;reboot'')" by (simp add: run_strings)
  from 1 2 3 C8_validateTarget_rejects [OF 1 2] show ?thesis by simp
qed

text \<open>
  Claim C8 as stated fails at a string of one space: the space is outside the set and
  the string is not a bracketed IPv6 literal, but the error is the target-required one,
  not the invalid-format one.
\<close>

theorem C8_blank_counterexample:
  "\<not> list_all target_charset (js '' '') \<and> \<not> bracketed_ipv6 (js '' '') \<and>
   validateTarget (js '' '') = Some (js ''Target IP or Host is required.'') \<and>
   validateTarget (js '' '') \<noteq> Some (js ''Invalid format for IP/hostname.'') \<and>
   validateTarget_s1 (js '' '') = Some (js ''Target IP or Host is required.'') \<and>
   validateTarget_s1 (js '' '') \<noteq> Some (js ''Invalid format. Please enter a valid IP or hostname.'')"
  by (simp add: validateTarget_def validateTarget_s1_def bracketed_ipv6_def run_strings
      run_patterns)

text \<open>
  The target check of \<open>validateForm\<close> in scriptgemin.js looks at nothing but blankness.
\<close>

lemma validateForm_target_check:
  "(''ip-host'', msg) \<in> set (validateForm_errors g) \<longleftrightarrow>
     trim (ip_host g) = [] \<and> msg = js ''Target IP or Hostname is required.''"
  by (auto simp: validateForm_errors_def)

text \<open>
  Claim C10: \<open>validateTarget\<close> of script.js and of script1.js return, for every string,
  what the same validator returns with the dotted-quad alternative deleted from the
  pattern, the hostname alternative accepting every non-empty string of letters,
  digits, dots and hyphens; \<open>"999.999.999.999"\<close>, \<open>"1.2.3.4.5"\<close>, \<open>"..."\<close> and \<open>"---"\<close>
  are accepted.
\<close>

theorem C10_ipv4_alternative_redundant:
  "validateTarget s = validateTarget_without_ipv4 s \<and>
   validateTarget_s1 s = validateTarget_s1_without_ipv4 s \<and>
   (s \<noteq> [] \<and> list_all letter_digit_dot_hyphen s \<longrightarrow> test hostname_alt s) \<and>
   validateTarget (js ''999.999.999.999'') = None \<and>
   validateTarget (js ''1.2.3.4.5'') = None \<and>
   validateTarget (js ''...'') = None \<and>
   validateTarget (js ''---'') = None \<and>
   validateTarget_s1 (js ''999.999.999.999'') = None \<and>
   validateTarget_s1 (js ''1.2.3.4.5'') = None \<and>
   validateTarget_s1 (js ''...'') = None \<and>
   validateTarget_s1 (js ''---'') = None"
proof (intro conjI)
  show "validateTarget s = validateTarget_without_ipv4 s"
    by (simp add: validateTarget_def validateTarget_without_ipv4_def targetRegex_without_ipv4)
  show "validateTarget_s1 s = validateTarget_s1_without_ipv4 s"
    by (simp add: validateTarget_s1_def validateTarget_s1_without_ipv4_def
        targetRegex_s1_without_ipv4)
  show "s \<noteq> [] \<and> list_all letter_digit_dot_hyphen s \<longrightarrow> test hostname_alt s"
    by (auto simp: test_hostname_alt list_all_iff letter_digit_dot_hyphen_def hostname_class_def)
  show "validateTarget (js ''999.999.999.999'') = None"
    by (simp add: validateTarget_def run_strings run_patterns)
  show "validateTarget (js ''1.2.3.4.5'') = None"
    by (simp add: validateTarget_def run_strings run_patterns)
  show "validateTarget (js ''...'') = None"
    by (simp add: validateTarget_def run_strings run_patterns)
  show "validateTarget (js ''---'') = None"
    by (simp add: validateTarget_def run_strings run_patterns)
  show "validateTarget_s1 (js ''999.999.999.999'') = None"
    by (simp add: validateTarget_s1_def run_strings run_patterns)
  show "validateTarget_s1 (js ''1.2.3.4.5'') = None"
    by (simp add: validateTarget_s1_def run_strings run_patterns)
  show "validateTarget_s1 (js ''...'') = None"
    by (simp add: validateTarget_s1_def run_strings run_patterns)
  show "validateTarget_s1 (js ''---'') = None"
    by (simp add: validateTarget_s1_def run_strings run_patterns)
qed

theorem C10_ipv4_alternative_redundant_witness:
  "js ''10.0.0.256'' \<noteq> [] \<and> list_all letter_digit_dot_hyphen (js ''10.0.0.256'') \<and>
   test hostname_alt (js ''10.0.0.256'') \<and>
   validateTarget_without_ipv4 (js ''10.0.0.256'') = None \<and>
   validateTarget (js ''10.0.0.256'') = None \<and>
   validateTarget_s1_without_ipv4 (js ''[fe80::1]'') = None \<and>
   validateTarget_s1 (js ''[fe80::1]'') = None"
proof -
  have "js ''10.0.0.256'' \<noteq> [] \<and> list_all letter_digit_dot_hyphen (js ''10.0.0.256'')"
    by (simp add: run_strings)
  moreover have "validateTarget_without_ipv4 (js ''10.0.0.256'') = None"
    by (simp add: validateTarget_without_ipv4_def run_strings run_patterns)
  moreover have "validateTarget_s1_without_ipv4 (js ''[fe80::1]'') = None"
    by (simp add: validateTarget_s1_without_ipv4_def run_strings run_patterns)
  ultimately show ?thesis
    using C10_ipv4_alternative_redundant [of "js ''10.0.0.256''"]
      C10_ipv4_alternative_redundant [of "js ''[fe80::1]''"]
    by simp
qed

section \<open>Submitting a scan\<close>

lemmas page_steps = do_fetch_def alert_def Let_def

lemma submitScan_try_fetched: "fetched (submitScan_try env d resp p) = fetched p @ [post_json d]"
  by (simp add: submitScan_try_def page_steps split: option.splits)

lemma submitScan_try_s1_fetched:
  "fetched (submitScan_try_s1 env d resp p) = fetched p @ [post_json d]"
  by (simp add: submitScan_try_s1_def page_steps split: option.splits)

lemma handleScanSubmission_try_fetched:
  "fetched (handleScanSubmission_try env d resp p) = fetched p @ [post_json d]"
  by (simp add: handleScanSubmission_try_def page_steps split: option.splits)

lemma alerts_fetched: "fetched (foldl (\<lambda>q e. alert (snd e) q) p errs) = fetched p"
  by (induction errs arbitrary: p) (simp_all add: alert_def)

lemma scanForm_submit_members:
  "scanForm_submit f = Proceed d \<Longrightarrow> member_names d = Some contract_names"
  by (auto simp: scanForm_submit_def member_names_def contract_names_def Let_def
      split: option.splits if_splits)

lemma scanForm_submit_s1_members:
  "scanForm_submit_s1 f = Proceed d \<Longrightarrow> member_names d = Some contract_names"
  by (auto simp: scanForm_submit_s1_def member_names_def contract_names_def Let_def
      split: option.splits if_splits)

lemma handleScanSubmission_scanData_members:
  "handleScanSubmission_scanData g = Proceed d \<Longrightarrow>
     member_names d = Some [js ''target_ip'', js ''protocol'', js ''ports_list'']"
  by (auto simp: handleScanSubmission_scanData_def member_names_def Let_def
      split: option.splits if_splits)

text \<open>
  Claim C1, amended. The submit handlers of script.js and of script1.js send nothing
  when validation stops them and otherwise exactly one request, a POST whose body is an
  object with the members \<open>target\<close>, \<open>protocol\<close>, \<open>port_mode\<close> and \<open>ports\<close>, for every
  response. \<open>handleScanSubmission\<close> of scriptgemin.js sends one POST as well, whose body
  has the members \<open>target_ip\<close>, \<open>protocol\<close> and \<open>ports_list\<close>.
\<close>

theorem C1_request_body_members:
  "(case scanForm_submit f of
      Proceed d \<Rightarrow>
        fetched (fst (scanForm_onsubmit env f b resp p)) = fetched p @ [post_json d] \<and>
        req_method (post_json d) = ''POST'' \<and> req_body (post_json d) = d \<and>
        member_names d = Some contract_names
    | _ \<Rightarrow> fetched (fst (scanForm_onsubmit env f b resp p)) = fetched p) \<and>
   (case scanForm_submit_s1 f1 of
      Proceed d \<Rightarrow>
        fetched (fst (scanForm_onsubmit_s1 env f1 b1 resp p)) = fetched p @ [post_json d] \<and>
        req_method (post_json d) = ''POST'' \<and> req_body (post_json d) = d \<and>
        member_names d = Some contract_names
    | _ \<Rightarrow> fetched (fst (scanForm_onsubmit_s1 env f1 b1 resp p)) = fetched p) \<and>
   (case handleScanSubmission_scanData g of
      Proceed d \<Rightarrow>
        fetched (fst (handleScanSubmission env g b1 resp p)) = fetched p @ [post_json d] \<and>
        req_method (post_json d) = ''POST'' \<and> req_body (post_json d) = d \<and>
        member_names d = Some [js ''target_ip'', js ''protocol'', js ''ports_list'']
    | _ \<Rightarrow> fetched (fst (handleScanSubmission env g b1 resp p)) = fetched p)"
proof (intro conjI)
  show "case scanForm_submit f of
      Proceed d \<Rightarrow>
        fetched (fst (scanForm_onsubmit env f b resp p)) = fetched p @ [post_json d] \<and>
        req_method (post_json d) = ''POST'' \<and> req_body (post_json d) = d \<and>
        member_names d = Some contract_names
    | _ \<Rightarrow> fetched (fst (scanForm_onsubmit env f b resp p)) = fetched p"
    by (cases "scanForm_submit f")
      (simp_all add: scanForm_onsubmit_def submitScan_def submitScan_try_fetched alerts_fetched
        post_json_def scanForm_submit_members)
  show "case scanForm_submit_s1 f1 of
      Proceed d \<Rightarrow>
        fetched (fst (scanForm_onsubmit_s1 env f1 b1 resp p)) = fetched p @ [post_json d] \<and>
        req_method (post_json d) = ''POST'' \<and> req_body (post_json d) = d \<and>
        member_names d = Some contract_names
    | _ \<Rightarrow> fetched (fst (scanForm_onsubmit_s1 env f1 b1 resp p)) = fetched p"
    by (cases "scanForm_submit_s1 f1")
      (simp_all add: scanForm_onsubmit_s1_def submitScan_s1_def submitScan_try_s1_fetched
        post_json_def scanForm_submit_s1_members)
  show "case handleScanSubmission_scanData g of
      Proceed d \<Rightarrow>
        fetched (fst (handleScanSubmission env g b1 resp p)) = fetched p @ [post_json d] \<and>
        req_method (post_json d) = ''POST'' \<and> req_body (post_json d) = d \<and>
        member_names d = Some [js ''target_ip'', js ''protocol'', js ''ports_list'']
    | _ \<Rightarrow> fetched (fst (handleScanSubmission env g b1 resp p)) = fetched p"
    by (cases "handleScanSubmission_scanData g")
      (simp_all add: handleScanSubmission_def handleScanSubmission_try_fetched post_json_def
        handleScanSubmission_scanData_members)
qed

text \<open>
  A form of each script from which submission proceeds, and the one request each
  handler sends for it when the request gets no response.
\<close>

theorem C1_request_body_members_witness:
  "fetched (fst (scanForm_onsubmit example_builtins
     \<lparr>targetInput = Some \<lparr>el_value = js '' scanme.example.org '', el_textContent = []\<rparr>,
      protocolEl = None, portModeEl = Some (js ''custom''), customPortsEl = Some (js ''22, 80''),
      termsCheckbox = Some True\<rparr> None None blank_page)) =
     [post_json (JObj [(js ''target'', JStr (js ''scanme.example.org'')),
       (js ''protocol'', JStr (js ''tcp'')), (js ''port_mode'', JStr (js ''custom'')),
       (js ''ports'', JStr (js ''22, 80''))])] \<and>
   fetched (fst (scanForm_onsubmit_s1 example_builtins
     \<lparr>target_ip = js ''scanme.example.org'', port_mode = js ''top100'', custom_ports = [],
      terms_agree = True, protocol_s1 = Some (js ''udp'')\<rparr>
     \<lparr>disabled = False, content = js ''Start Scan'', originalText = None, loading = False\<rparr>
     None blank_page)) =
     [post_json (JObj [(js ''target'', JStr (js ''scanme.example.org'')),
       (js ''protocol'', JStr (js ''udp'')), (js ''port_mode'', JStr (js ''top100'')),
       (js ''ports'', JStr (js ''top100''))])] \<and>
   fetched (fst (handleScanSubmission example_builtins
     \<lparr>ip_host = js ''scanme.example.org'', port_select = js ''top_100'', ports_list = [],
      terms_agreement = True, protocol_gemin = Some (js ''tcp'')\<rparr>
     \<lparr>disabled = False, content = js ''Start Scan'', originalText = None, loading = False\<rparr>
     None blank_page)) =
     [post_json (JObj [(js ''target_ip'', JStr (js ''scanme.example.org'')),
       (js ''protocol'', JStr (js ''tcp'')), (js ''ports_list'', JStr (js ''top_100''))])]"
proof -
  let ?f = "\<lparr>targetInput = Some \<lparr>el_value = js '' scanme.example.org '', el_textContent = []\<rparr>,
      protocolEl = None, portModeEl = Some (js ''custom''), customPortsEl = Some (js ''22, 80''),
      termsCheckbox = Some True\<rparr>"
  let ?f1 = "\<lparr>target_ip = js ''scanme.example.org'', port_mode = js ''top100'', custom_ports = [],
      terms_agree = True, protocol_s1 = Some (js ''udp'')\<rparr>"
  let ?g = "\<lparr>ip_host = js ''scanme.example.org'', port_select = js ''top_100'', ports_list = [],
      terms_agreement = True, protocol_gemin = Some (js ''tcp'')\<rparr>"
  let ?b = "\<lparr>disabled = False, content = js ''Start Scan'', originalText = None, loading = False\<rparr>"
  have s: "scanForm_submit ?f =
     Proceed (JObj [(js ''target'', JStr (js ''scanme.example.org'')),
       (js ''protocol'', JStr (js ''tcp'')), (js ''port_mode'', JStr (js ''custom'')),
       (js ''ports'', JStr (js ''22, 80''))])"
    by (simp add: scanForm_submit_def validateTarget_def validatePorts_def run_strings
        run_patterns)
  have s1: "scanForm_submit_s1 ?f1 =
     Proceed (JObj [(js ''target'', JStr (js ''scanme.example.org'')),
       (js ''protocol'', JStr (js ''udp'')), (js ''port_mode'', JStr (js ''top100'')),
       (js ''ports'', JStr (js ''top100''))])"
    by (simp add: scanForm_submit_s1_def scanForm_errors_s1_def validateTarget_s1_def Let_def
        run_strings run_patterns)
  have g: "handleScanSubmission_scanData ?g =
     Proceed (JObj [(js ''target_ip'', JStr (js ''scanme.example.org'')),
       (js ''protocol'', JStr (js ''tcp'')), (js ''ports_list'', JStr (js ''top_100''))])"
    by (simp add: handleScanSubmission_scanData_def validateForm_def validateForm_errors_def
        run_strings)
  have e: "fetched blank_page = []" by (simp add: blank_page_def)
  show ?thesis
    using C1_request_body_members
      [where f = ?f and ?f1.0 = ?f1 and g = ?g and env = example_builtins and b = None
         and ?b1.0 = ?b and resp = None and p = blank_page]
    by (simp only: s s1 g e attempt.case append_Nil simp_thms)
qed

text \<open>
  Claim C1 as stated fails for \<open>handleScanSubmission\<close> of scriptgemin.js: for a valid form
  the body it sends has none of the members \<open>target\<close>, \<open>port_mode\<close> and \<open>ports\<close>.
\<close>

theorem C1_handleScanSubmission_counterexample:
  "handleScanSubmission_scanData
     \<lparr>ip_host = js ''scanme.example.org'', port_select = js ''top_100'', ports_list = [],
      terms_agreement = True, protocol_gemin = Some (js ''tcp'')\<rparr> =
     Proceed (JObj [(js ''target_ip'', JStr (js ''scanme.example.org'')),
       (js ''protocol'', JStr (js ''tcp'')), (js ''ports_list'', JStr (js ''top_100''))]) \<and>
   member_names (JObj [(js ''target_ip'', JStr (js ''scanme.example.org'')),
       (js ''protocol'', JStr (js ''tcp'')), (js ''ports_list'', JStr (js ''top_100''))]) \<noteq>
     Some contract_names"
  by (simp add: handleScanSubmission_scanData_def validateForm_def validateForm_errors_def
      member_names_def contract_names_def run_strings)

lemma validatePorts_not_Nil: "validatePorts ps = None \<Longrightarrow> ps \<noteq> []"
  by (auto simp: validatePorts_def)

lemma validatePorts_s1_not_Nil: "validatePorts_s1 ps = None \<Longrightarrow> ps \<noteq> []"
  by (auto simp: validatePorts_s1_def)

lemma script_payload_members:
  "string_member (JObj [(js ''target'', JStr t), (js ''protocol'', JStr pr),
      (js ''port_mode'', JStr m), (js ''ports'', JStr ps)]) ''port_mode'' = Some m"
  "string_member (JObj [(js ''target'', JStr t), (js ''protocol'', JStr pr),
      (js ''port_mode'', JStr m), (js ''ports'', JStr ps)]) ''ports'' = Some ps"
  by (simp_all add: string_member_def js_def)

lemma scanForm_submit_shape:
  assumes "scanForm_submit f = Proceed d"
  shows "\<exists>t pr m ps.
           d = JObj [(js ''target'', JStr t), (js ''protocol'', JStr pr),
                     (js ''port_mode'', JStr m), (js ''ports'', JStr ps)] \<and>
           (if m = js ''custom'' then validatePorts ps = None else ps = [])"
  using assms
  by (auto simp: scanForm_submit_def Let_def split: option.splits if_splits)

lemma scanForm_submit_invariant:
  assumes "scanForm_submit f = Proceed d"
  shows "ports_invariant d"
proof -
  from scanForm_submit_shape [OF assms] obtain t pr m ps where
    d: "d = JObj [(js ''target'', JStr t), (js ''protocol'', JStr pr),
                  (js ''port_mode'', JStr m), (js ''ports'', JStr ps)]"
    and c: "if m = js ''custom'' then validatePorts ps = None else ps = []"
    by blast
  show ?thesis
  proof (cases "m = js ''custom''")
    case True
    with c have "validatePorts ps = None" by simp
    then have "ps \<noteq> []" and "port_list_grammar (strip_whitespace ps)"
      by (simp_all add: validatePorts_not_Nil validatePorts_grammar [symmetric])
    with True show ?thesis
      unfolding d ports_invariant_def by (simp add: script_payload_members)
  next
    case False
    with c have "ps = []" by simp
    with False show ?thesis
      unfolding d ports_invariant_def by (simp add: script_payload_members)
  qed
qed

lemma scanForm_submit_s1_shape:
  assumes "scanForm_submit_s1 f = Proceed d"
  shows "\<exists>pr. d = JObj [(js ''target'', JStr (target_ip f)), (js ''protocol'', JStr pr),
                     (js ''port_mode'', JStr (port_mode f)),
                     (js ''ports'', JStr (if port_mode f = js ''custom'' then custom_ports f
                                            else port_mode f))] \<and>
           (port_mode f = js ''custom'' \<longrightarrow> validatePorts_s1 (custom_ports f) = None)"
  using assms
  by (auto simp: scanForm_submit_s1_def scanForm_errors_s1_def Let_def
      split: option.splits if_splits)

text \<open>
  Claim C2, amended. In script.js every request the submit handler builds has an empty
  \<open>ports\<close> when the port mode is not \<open>custom\<close>, whatever the custom-port field holds, and
  a non-empty \<open>ports\<close> of the port-list grammar (whitespace aside) when it is; no other
  request is sent. In script1.js \<open>ports\<close> is the port mode itself when the mode is not
  \<open>custom\<close>, and the custom-port field, non-empty and of the grammar, when it is.
\<close>

theorem C2_ports_invariant:
  "(scanForm_submit f = Proceed d \<longrightarrow> ports_invariant d) \<and>
   (\<forall>r\<in>set (fetched (fst (scanForm_onsubmit env f b resp p))).
      r \<in> set (fetched p) \<or> ports_invariant (req_body r)) \<and>
   (scanForm_submit_s1 f1 = Proceed d1 \<longrightarrow>
      string_member d1 ''port_mode'' = Some (port_mode f1) \<and>
      string_member d1 ''ports'' =
        Some (if port_mode f1 = js ''custom'' then custom_ports f1 else port_mode f1) \<and>
      (port_mode f1 = js ''custom'' \<longrightarrow>
         custom_ports f1 \<noteq> [] \<and> port_list_grammar (strip_whitespace (custom_ports f1))))"
proof (intro conjI)
  show "scanForm_submit f = Proceed d \<longrightarrow> ports_invariant d"
    by (simp add: scanForm_submit_invariant)
  show "\<forall>r\<in>set (fetched (fst (scanForm_onsubmit env f b resp p))).
      r \<in> set (fetched p) \<or> ports_invariant (req_body r)"
    by (cases "scanForm_submit f")
      (auto simp: scanForm_onsubmit_def submitScan_def submitScan_try_fetched alerts_fetched
        post_json_def scanForm_submit_invariant)
  show "scanForm_submit_s1 f1 = Proceed d1 \<longrightarrow>
      string_member d1 ''port_mode'' = Some (port_mode f1) \<and>
      string_member d1 ''ports'' =
        Some (if port_mode f1 = js ''custom'' then custom_ports f1 else port_mode f1) \<and>
      (port_mode f1 = js ''custom'' \<longrightarrow>
         custom_ports f1 \<noteq> [] \<and> port_list_grammar (strip_whitespace (custom_ports f1)))"
  proof
    assume "scanForm_submit_s1 f1 = Proceed d1"
    from scanForm_submit_s1_shape [OF this] obtain pr where
      d: "d1 = JObj [(js ''target'', JStr (target_ip f1)), (js ''protocol'', JStr pr),
                     (js ''port_mode'', JStr (port_mode f1)),
                     (js ''ports'', JStr (if port_mode f1 = js ''custom'' then custom_ports f1
                                            else port_mode f1))]"
      and c: "port_mode f1 = js ''custom'' \<longrightarrow> validatePorts_s1 (custom_ports f1) = None"
      by blast
    from c have "port_mode f1 = js ''custom'' \<longrightarrow>
        custom_ports f1 \<noteq> [] \<and> port_list_grammar (strip_whitespace (custom_ports f1))"
      by (simp add: validatePorts_s1_not_Nil validatePorts_s1_grammar [symmetric])
    then show "string_member d1 ''port_mode'' = Some (port_mode f1) \<and>
      string_member d1 ''ports'' =
        Some (if port_mode f1 = js ''custom'' then custom_ports f1 else port_mode f1) \<and>
      (port_mode f1 = js ''custom'' \<longrightarrow>
         custom_ports f1 \<noteq> [] \<and> port_list_grammar (strip_whitespace (custom_ports f1)))"
      unfolding d by (simp add: script_payload_members)
  qed
qed

text \<open>
  In script.js, a preset mode with a value left in the custom-port field gives an empty
  \<open>ports\<close>; the custom mode gives the trimmed field.
\<close>

theorem C2_ports_invariant_witness:
  "scanForm_submit
     \<lparr>targetInput = Some \<lparr>el_value = js ''10.0.0.5'', el_textContent = []\<rparr>,
      protocolEl = Some (js ''udp''), portModeEl = Some (js ''top1000''),
      customPortsEl = Some (js ''22,80''), termsCheckbox = Some True\<rparr> =
     Proceed (JObj [(js ''target'', JStr (js ''10.0.0.5'')), (js ''protocol'', JStr (js ''udp'')),
       (js ''port_mode'', JStr (js ''top1000'')), (js ''ports'', JStr [])]) \<and>
   ports_invariant (JObj [(js ''target'', JStr (js ''10.0.0.5'')),
       (js ''protocol'', JStr (js ''udp'')), (js ''port_mode'', JStr (js ''top1000'')),
       (js ''ports'', JStr [])]) \<and>
   scanForm_submit_s1
     \<lparr>target_ip = js ''10.0.0.5'', port_mode = js ''custom'', custom_ports = js ''22, 80-90'',
      terms_agree = True, protocol_s1 = Some (js ''tcp'')\<rparr> =
     Proceed (JObj [(js ''target'', JStr (js ''10.0.0.5'')), (js ''protocol'', JStr (js ''tcp'')),
       (js ''port_mode'', JStr (js ''custom'')), (js ''ports'', JStr (js ''22, 80-90''))]) \<and>
   port_list_grammar (strip_whitespace (js ''22, 80-90''))"
proof -
  let ?f = "\<lparr>targetInput = Some \<lparr>el_value = js ''10.0.0.5'', el_textContent = []\<rparr>,
      protocolEl = Some (js ''udp''), portModeEl = Some (js ''top1000''),
      customPortsEl = Some (js ''22,80''), termsCheckbox = Some True\<rparr>"
  let ?d = "JObj [(js ''target'', JStr (js ''10.0.0.5'')), (js ''protocol'', JStr (js ''udp'')),
       (js ''port_mode'', JStr (js ''top1000'')), (js ''ports'', JStr [])]"
  let ?f1 = "\<lparr>target_ip = js ''10.0.0.5'', port_mode = js ''custom'', custom_ports = js ''22, 80-90'',
      terms_agree = True, protocol_s1 = Some (js ''tcp'')\<rparr>"
  let ?d1 = "JObj [(js ''target'', JStr (js ''10.0.0.5'')), (js ''protocol'', JStr (js ''tcp'')),
       (js ''port_mode'', JStr (js ''custom'')), (js ''ports'', JStr (js ''22, 80-90''))]"
  have s: "scanForm_submit ?f = Proceed ?d"
    by (simp add: scanForm_submit_def validateTarget_def run_strings run_patterns)
  have s1: "scanForm_submit_s1 ?f1 = Proceed ?d1"
    by (simp add: scanForm_submit_s1_def scanForm_errors_s1_def validateTarget_s1_def
        validatePorts_s1_def Let_def run_strings run_patterns)
  have m: "port_mode ?f1 = js ''custom''" and c: "custom_ports ?f1 = js ''22, 80-90''"
    by simp_all
  from C2_ports_invariant [where f = ?f and d = ?d and ?f1.0 = ?f1 and ?d1.0 = ?d1] s s1
  have "ports_invariant ?d" and
    "port_list_grammar (strip_whitespace (custom_ports ?f1))"
    unfolding m by blast+
  with s s1 show ?thesis unfolding c by blast
qed

text \<open>
  Claim C2 as stated fails in script1.js: with a preset mode the \<open>ports\<close> member of the
  request is the mode, not the empty string.
\<close>

theorem C2_script1_counterexample:
  "scanForm_submit_s1
     \<lparr>target_ip = js ''10.0.0.5'', port_mode = js ''top100'', custom_ports = js ''22'',
      terms_agree = True, protocol_s1 = Some (js ''tcp'')\<rparr> =
     Proceed (JObj [(js ''target'', JStr (js ''10.0.0.5'')), (js ''protocol'', JStr (js ''tcp'')),
       (js ''port_mode'', JStr (js ''top100'')), (js ''ports'', JStr (js ''top100''))]) \<and>
   \<not> ports_invariant (JObj [(js ''target'', JStr (js ''10.0.0.5'')),
       (js ''protocol'', JStr (js ''tcp'')), (js ''port_mode'', JStr (js ''top100'')),
       (js ''ports'', JStr (js ''top100''))])"
  by (simp add: scanForm_submit_s1_def scanForm_errors_s1_def validateTarget_s1_def
      ports_invariant_def string_member_def Let_def run_strings run_patterns)

section \<open>The outcomes of a submission\<close>

text \<open>
  Claim C4, amended. When \<open>submitScan\<close> begins the submit button is disabled and shows the
  busy text; when it returns, for every response or failure to get one, the button is
  enabled again. script.js then shows the content the button had before, or
  \<open>Start Scan\<close> when that content was empty; script1.js shows \<open>Start Scan\<close> and removes
  the class \<open>loading\<close>.
\<close>

theorem C4_button_released:
  "disabled (submitScan_begin b) \<and> content (submitScan_begin b) = js ''Scanning...'' \<and>
   snd (submitScan env d (Some b) resp p) =
     Some (b\<lparr>disabled := False, originalText := Some (content b),
             content := (if content b = [] then js ''Start Scan'' else content b)\<rparr>) \<and>
   snd (submitScan env d None resp p) = None \<and>
   disabled (submitScan_begin_s1 b) \<and>
   content (submitScan_begin_s1 b) = js ''Scanning... Please wait (up to 120s)'' \<and>
   snd (submitScan_s1 env d b resp p) =
     b\<lparr>disabled := False, content := js ''Start Scan'', loading := False\<rparr>"
  by (simp add: submitScan_def submitScan_begin_def submitScan_finally_def submitScan_s1_def
      submitScan_begin_s1_def submitScan_finally_s1_def)

text \<open>A button labelled \<open>Start Scan\<close> and a request that gets no response.\<close>

theorem C4_button_released_witness:
  "snd (submitScan example_builtins (JObj [])
     (Some \<lparr>disabled = False, content = js ''Start Scan'', originalText = None, loading = False\<rparr>)
     None blank_page) =
     Some \<lparr>disabled = False, content = js ''Start Scan'',
           originalText = Some (js ''Start Scan''), loading = False\<rparr> \<and>
   snd (submitScan_s1 example_builtins (JObj [])
     \<lparr>disabled = False, content = js ''Start Scan'', originalText = None, loading = False\<rparr>
     None blank_page) =
     \<lparr>disabled = False, content = js ''Start Scan'', originalText = None, loading = False\<rparr>"
  using C4_button_released
    [where b = "\<lparr>disabled = False, content = js ''Start Scan'', originalText = None,
                   loading = False\<rparr>"
       and env = example_builtins and d = "JObj []" and resp = None and p = blank_page]
  by (simp add: js_def)

text \<open>
  Claim C4 as stated fails for the label in script1.js: a button that read \<open>Scan now\<close>
  reads \<open>Start Scan\<close> after a submission, here one that got no response.
\<close>

theorem C4_label_counterexample:
  "content (snd (submitScan_s1 example_builtins (JObj [])
     \<lparr>disabled = False, content = js ''Scan now'', originalText = None, loading = False\<rparr>
     None blank_page)) = js ''Start Scan'' \<and>
   js ''Start Scan'' \<noteq> js ''Scan now''"
  by (simp add: submitScan_s1_def submitScan_begin_s1_def submitScan_finally_s1_def js_def)

lemma interpolate_string: "interpolate env (Some (JStr s)) = Some s"
  by (simp add: interpolate_def to_string_def)

lemma or_else_truthy: "truthy a \<Longrightarrow> or_else a b = a"
  by (simp add: or_else_def)

lemma or_else_falsy: "\<not> truthy a \<Longrightarrow> or_else a b = b"
  by (simp add: or_else_def)

lemma submitScan_try_success:
  assumes "ok r" and "resp_body r = Some j"
  shows "submitScan_try env d (Some r) p =
    (do_fetch d p)\<lparr>sessionStorage := (sessionStorage p)(''scanResults'' \<mapsto> j),
                   location := Some ''results.html''\<rparr>"
  using assms by (simp add: submitScan_try_def page_steps)

lemma submitScan_try_s1_success:
  assumes "ok r" and "resp_body r = Some j"
  shows "submitScan_try_s1 env d (Some r) p =
    (do_fetch d p)\<lparr>localStorage := (localStorage p)(''scanResults'' \<mapsto> j),
                   location := Some ''results.html''\<rparr>"
  using assms by (simp add: submitScan_try_s1_def page_steps)

lemma handleScanSubmission_try_success:
  assumes "ok r" and "resp_body r = Some j" and "j \<noteq> JNull" and "\<not> truthy (property j ''error'')"
  shows "handleScanSubmission_try env d (Some r) p =
    (do_fetch d p)\<lparr>sessionStorage := (sessionStorage p)(''scanResults'' \<mapsto> j),
                   location := Some ''results.html''\<rparr>"
  using assms by (simp add: handleScanSubmission_try_def page_steps)

lemma handleScanSubmission_try_error:
  assumes "ok r" and "resp_body r = Some j" and "truthy (property j ''error'')"
    and "interpolate env (property j ''error'') = Some e"
  shows "handleScanSubmission_try env d (Some r) p =
    alert (js ''Scan Error: '' @ e) (do_fetch d p)"
proof -
  from assms(3) have "j \<noteq> JNull" by auto
  with assms show ?thesis by (simp add: handleScanSubmission_try_def page_steps)
qed

lemma handleScanSubmission_try_caught:
  assumes "ok r" and "resp_body r = Some j"
    and "j = JNull \<or> truthy (property j ''error'') \<and> interpolate env (property j ''error'') = None"
  shows "handleScanSubmission_try env d (Some r) p =
    alert (js ''Network Error: Could not connect to the Python backend. Ensure 'app.py' is running on http://127.0.0.1:5000.'')
      (do_fetch d p)"
proof (cases "j = JNull")
  case True
  with assms show ?thesis by (simp add: handleScanSubmission_try_def Let_def)
next
  case False
  with assms show ?thesis by (simp add: handleScanSubmission_try_def Let_def)
qed

lemma handleScanSubmission_try_unstored:
  assumes "ok r" and "resp_body r = Some j" and "j = JNull \<or> truthy (property j ''error'')"
  shows "\<exists>msg. handleScanSubmission_try env d (Some r) p = alert msg (do_fetch d p)"
proof (cases "j \<noteq> JNull \<and> (\<exists>e. interpolate env (property j ''error'') = Some e)")
  case True
  then obtain e where e: "interpolate env (property j ''error'') = Some e" by blast
  from True assms(3) have "truthy (property j ''error'')" by simp
  from handleScanSubmission_try_error [OF assms(1,2) this e] show ?thesis by blast
next
  case False
  with assms(3)
  have "j = JNull \<or> truthy (property j ''error'') \<and> interpolate env (property j ''error'') = None"
    by auto
  from handleScanSubmission_try_caught [OF assms(1,2) this] show ?thesis by blast
qed

text \<open>
  Claim C3, amended. On a success status with a body that is JSON, \<open>submitScan\<close> of
  script.js stores the body under \<open>scanResults\<close> in the session storage and navigates to
  the results page, for every such body, with no alert; script1.js does the same into
  the local storage. \<open>handleScanSubmission\<close> of scriptgemin.js does so into the session
  storage when the body is not \<open>null\<close> and has no truthy \<open>error\<close> member. A body that is
  \<open>null\<close> or has a truthy \<open>error\<close> member is not stored there, nothing navigates and one
  alert is raised: \<open>Scan Error:\<close> followed by the \<open>error\<close> member as a string when its
  conversion to a string returns, and the text for a network error when the body is
  \<open>null\<close> or that conversion throws.
\<close>

theorem C3_success_stored:
  assumes "ok r" and "resp_body r = Some j"
  shows
    "sessionStorage (fst (submitScan env d b (Some r) p)) ''scanResults'' = Some j \<and>
     location (fst (submitScan env d b (Some r) p)) = Some ''results.html'' \<and>
     alerts (fst (submitScan env d b (Some r) p)) = alerts p \<and>
     localStorage (fst (submitScan env d b (Some r) p)) = localStorage p \<and>
     localStorage (fst (submitScan_s1 env d b1 (Some r) p)) ''scanResults'' = Some j \<and>
     location (fst (submitScan_s1 env d b1 (Some r) p)) = Some ''results.html'' \<and>
     alerts (fst (submitScan_s1 env d b1 (Some r) p)) = alerts p \<and>
     sessionStorage (fst (submitScan_s1 env d b1 (Some r) p)) = sessionStorage p \<and>
     (handleScanSubmission_scanData g = Proceed dg \<and> j \<noteq> JNull \<and>
      \<not> truthy (property j ''error'') \<longrightarrow>
        sessionStorage (fst (handleScanSubmission env g b1 (Some r) p)) ''scanResults'' = Some j \<and>
        location (fst (handleScanSubmission env g b1 (Some r) p)) = Some ''results.html'' \<and>
        alerts (fst (handleScanSubmission env g b1 (Some r) p)) = alerts p) \<and>
     (handleScanSubmission_scanData g = Proceed dg \<and>
      (j = JNull \<or> truthy (property j ''error'')) \<longrightarrow>
        sessionStorage (fst (handleScanSubmission env g b1 (Some r) p)) = sessionStorage p \<and>
        location (fst (handleScanSubmission env g b1 (Some r) p)) = location p \<and>
        length (alerts (fst (handleScanSubmission env g b1 (Some r) p))) =
          Suc (length (alerts p))) \<and>
     (handleScanSubmission_scanData g = Proceed dg \<and> truthy (property j ''error'') \<and>
      interpolate env (property j ''error'') = Some e \<longrightarrow>
        alerts (fst (handleScanSubmission env g b1 (Some r) p)) =
          alerts p @ [js ''Scan Error: '' @ e]) \<and>
     (handleScanSubmission_scanData g = Proceed dg \<and>
      (j = JNull \<or>
       truthy (property j ''error'') \<and> interpolate env (property j ''error'') = None) \<longrightarrow>
        alerts (fst (handleScanSubmission env g b1 (Some r) p)) =
          alerts p @ [js ''Network Error: Could not connect to the Python backend. Ensure 'app.py' is running on http://127.0.0.1:5000.''])"
proof -
  have 1: "fst (submitScan env d b (Some r) p) =
      (do_fetch d p)\<lparr>sessionStorage := (sessionStorage p)(''scanResults'' \<mapsto> j),
                     location := Some ''results.html''\<rparr>"
    using assms by (simp add: submitScan_def submitScan_try_success)
  have 2: "fst (submitScan_s1 env d b1 (Some r) p) =
      (do_fetch d p)\<lparr>localStorage := (localStorage p)(''scanResults'' \<mapsto> j),
                     location := Some ''results.html''\<rparr>"
    using assms by (simp add: submitScan_s1_def submitScan_try_s1_success)
  have a: "sessionStorage (fst (submitScan env d b (Some r) p)) ''scanResults'' = Some j \<and>
     location (fst (submitScan env d b (Some r) p)) = Some ''results.html'' \<and>
     alerts (fst (submitScan env d b (Some r) p)) = alerts p \<and>
     localStorage (fst (submitScan env d b (Some r) p)) = localStorage p"
    unfolding 1 by (simp add: page_steps)
  have a1: "localStorage (fst (submitScan_s1 env d b1 (Some r) p)) ''scanResults'' = Some j \<and>
     location (fst (submitScan_s1 env d b1 (Some r) p)) = Some ''results.html'' \<and>
     alerts (fst (submitScan_s1 env d b1 (Some r) p)) = alerts p \<and>
     sessionStorage (fst (submitScan_s1 env d b1 (Some r) p)) = sessionStorage p"
    unfolding 2 by (simp add: page_steps)
  have 3: "fst (handleScanSubmission env g b1 (Some r) p) =
      (do_fetch dg (p\<lparr>field_errors := []\<rparr>))
        \<lparr>sessionStorage := (sessionStorage p)(''scanResults'' \<mapsto> j),
         location := Some ''results.html''\<rparr>"
    if "handleScanSubmission_scanData g = Proceed dg" "j \<noteq> JNull" "\<not> truthy (property j ''error'')"
    using that assms by (simp add: handleScanSubmission_def handleScanSubmission_try_success)
  have s: "handleScanSubmission_scanData g = Proceed dg \<and> j \<noteq> JNull \<and>
      \<not> truthy (property j ''error'') \<longrightarrow>
        sessionStorage (fst (handleScanSubmission env g b1 (Some r) p)) ''scanResults'' = Some j \<and>
        location (fst (handleScanSubmission env g b1 (Some r) p)) = Some ''results.html'' \<and>
        alerts (fst (handleScanSubmission env g b1 (Some r) p)) = alerts p"
    using 3 by (simp add: page_steps)
  have u: "handleScanSubmission_scanData g = Proceed dg \<and>
      (j = JNull \<or> truthy (property j ''error'')) \<longrightarrow>
        sessionStorage (fst (handleScanSubmission env g b1 (Some r) p)) = sessionStorage p \<and>
        location (fst (handleScanSubmission env g b1 (Some r) p)) = location p \<and>
        length (alerts (fst (handleScanSubmission env g b1 (Some r) p))) =
          Suc (length (alerts p))"
  proof
    assume h: "handleScanSubmission_scanData g = Proceed dg \<and>
      (j = JNull \<or> truthy (property j ''error''))"
    then have "j = JNull \<or> truthy (property j ''error'')" by simp
    from handleScanSubmission_try_unstored [OF assms this]
    obtain msg where "handleScanSubmission_try env dg (Some r) (p\<lparr>field_errors := []\<rparr>) =
        alert msg (do_fetch dg (p\<lparr>field_errors := []\<rparr>))"
      by blast
    with h show "sessionStorage (fst (handleScanSubmission env g b1 (Some r) p)) = sessionStorage p \<and>
        location (fst (handleScanSubmission env g b1 (Some r) p)) = location p \<and>
        length (alerts (fst (handleScanSubmission env g b1 (Some r) p))) =
          Suc (length (alerts p))"
      by (simp add: handleScanSubmission_def page_steps)
  qed
  have e: "handleScanSubmission_scanData g = Proceed dg \<and> truthy (property j ''error'') \<and>
      interpolate env (property j ''error'') = Some e \<longrightarrow>
        alerts (fst (handleScanSubmission env g b1 (Some r) p)) =
          alerts p @ [js ''Scan Error: '' @ e]"
    using assms
    by (simp add: handleScanSubmission_def handleScanSubmission_try_error page_steps)
  have c: "handleScanSubmission_scanData g = Proceed dg \<and>
      (j = JNull \<or>
       truthy (property j ''error'') \<and> interpolate env (property j ''error'') = None) \<longrightarrow>
        alerts (fst (handleScanSubmission env g b1 (Some r) p)) =
          alerts p @ [js ''Network Error: Could not connect to the Python backend. Ensure 'app.py' is running on http://127.0.0.1:5000.'']"
  proof
    assume h: "handleScanSubmission_scanData g = Proceed dg \<and>
      (j = JNull \<or>
       truthy (property j ''error'') \<and> interpolate env (property j ''error'') = None)"
    then have "j = JNull \<or>
       truthy (property j ''error'') \<and> interpolate env (property j ''error'') = None"
      by simp
    from handleScanSubmission_try_caught [OF assms this] h
    show "alerts (fst (handleScanSubmission env g b1 (Some r) p)) =
          alerts p @ [js ''Network Error: Could not connect to the Python backend. Ensure 'app.py' is running on http://127.0.0.1:5000.'']"
      by (simp add: handleScanSubmission_def page_steps)
  qed
  from a a1 s u e c show ?thesis by blast
qed

text \<open>
  A response of status 200 with the body of the specification's example, and a form of
  scriptgemin.js from which submission proceeds.
\<close>

theorem C3_success_stored_witness:
  "ok \<lparr>status = 200, resp_body = Some (JObj [(js ''open_ports'', JArr []),
        (js ''scan_duration'', JNum 1.23), (js ''protocol'', JStr (js ''tcp'')),
        (js ''ports_list'', JStr (js ''top100''))])\<rparr> \<and>
   sessionStorage (fst (submitScan example_builtins (JObj []) None
     (Some \<lparr>status = 200, resp_body = Some (JObj [(js ''open_ports'', JArr []),
        (js ''scan_duration'', JNum 1.23), (js ''protocol'', JStr (js ''tcp'')),
        (js ''ports_list'', JStr (js ''top100''))])\<rparr>) blank_page)) ''scanResults'' =
     Some (JObj [(js ''open_ports'', JArr []),
        (js ''scan_duration'', JNum 1.23), (js ''protocol'', JStr (js ''tcp'')),
        (js ''ports_list'', JStr (js ''top100''))]) \<and>
   location (fst (submitScan example_builtins (JObj []) None
     (Some \<lparr>status = 200, resp_body = Some (JObj [(js ''open_ports'', JArr []),
        (js ''scan_duration'', JNum 1.23), (js ''protocol'', JStr (js ''tcp'')),
        (js ''ports_list'', JStr (js ''top100''))])\<rparr>) blank_page)) = Some ''results.html'' \<and>
   sessionStorage (fst (handleScanSubmission example_builtins
     \<lparr>ip_host = js ''scanme.example.org'', port_select = js ''top_100'', ports_list = [],
      terms_agreement = True, protocol_gemin = Some (js ''tcp'')\<rparr>
     \<lparr>disabled = False, content = js ''Start Scan'', originalText = None, loading = False\<rparr>
     (Some \<lparr>status = 200, resp_body = Some (JObj [(js ''open_ports'', JArr []),
        (js ''scan_duration'', JNum 1.23), (js ''protocol'', JStr (js ''tcp'')),
        (js ''ports_list'', JStr (js ''top100''))])\<rparr>) blank_page)) ''scanResults'' =
     Some (JObj [(js ''open_ports'', JArr []),
        (js ''scan_duration'', JNum 1.23), (js ''protocol'', JStr (js ''tcp'')),
        (js ''ports_list'', JStr (js ''top100''))])"
proof -
  let ?j = "JObj [(js ''open_ports'', JArr []),
        (js ''scan_duration'', JNum 1.23), (js ''protocol'', JStr (js ''tcp'')),
        (js ''ports_list'', JStr (js ''top100''))]"
  let ?r = "\<lparr>status = 200, resp_body = Some ?j\<rparr>"
  let ?g = "\<lparr>ip_host = js ''scanme.example.org'', port_select = js ''top_100'', ports_list = [],
      terms_agreement = True, protocol_gemin = Some (js ''tcp'')\<rparr>"
  let ?dg = "JObj [(js ''target_ip'', JStr (js ''scanme.example.org'')),
       (js ''protocol'', JStr (js ''tcp'')), (js ''ports_list'', JStr (js ''top_100''))]"
  have 1: "ok ?r" by (simp add: ok_def)
  have 2: "resp_body ?r = Some ?j" by simp
  have 3: "handleScanSubmission_scanData ?g = Proceed ?dg"
    by (simp add: handleScanSubmission_scanData_def validateForm_def validateForm_errors_def
        run_strings)
  have 4: "?j \<noteq> JNull" by simp
  have 5: "\<not> truthy (property ?j ''error'')" by (simp add: js_def)
  from C3_success_stored [OF 1 2, where g = ?g and dg = ?dg] 1 3 4 5
  show ?thesis by blast
qed

text \<open>
  Claim C3 as stated fails for \<open>handleScanSubmission\<close> of scriptgemin.js: a response of
  status 200 whose JSON body has an \<open>error\<close> member is not stored and nothing navigates.
\<close>

theorem C3_error_member_counterexample:
  "ok \<lparr>status = 200, resp_body = Some (JObj [(js ''error'', JStr (js ''host unreachable''))])\<rparr> \<and>
   sessionStorage (fst (handleScanSubmission example_builtins
     \<lparr>ip_host = js ''scanme.example.org'', port_select = js ''top_100'', ports_list = [],
      terms_agreement = True, protocol_gemin = Some (js ''tcp'')\<rparr>
     \<lparr>disabled = False, content = js ''Start Scan'', originalText = None, loading = False\<rparr>
     (Some \<lparr>status = 200,
             resp_body = Some (JObj [(js ''error'', JStr (js ''host unreachable''))])\<rparr>)
     blank_page)) ''scanResults'' = None \<and>
   location (fst (handleScanSubmission example_builtins
     \<lparr>ip_host = js ''scanme.example.org'', port_select = js ''top_100'', ports_list = [],
      terms_agreement = True, protocol_gemin = Some (js ''tcp'')\<rparr>
     \<lparr>disabled = False, content = js ''Start Scan'', originalText = None, loading = False\<rparr>
     (Some \<lparr>status = 200,
             resp_body = Some (JObj [(js ''error'', JStr (js ''host unreachable''))])\<rparr>)
     blank_page)) = None"
  by (simp add: ok_def handleScanSubmission_def handleScanSubmission_scanData_def
      validateForm_def validateForm_errors_def handleScanSubmission_try_def page_steps
      interpolate_def to_string_def blank_page_def run_strings)

lemma truthy_not_null: "truthy (property j name) \<Longrightarrow> j \<noteq> JNull"
  by auto

lemma submitScan_try_failure:
  assumes "\<not> ok r \<or> resp_body r = None"
  shows "\<exists>msg. submitScan_try env d (Some r) p = alert msg (do_fetch d p)"
proof (cases "resp_body r")
  case None
  then show ?thesis by (simp add: submitScan_try_def Let_def) (rule exI, rule refl)
next
  case (Some j)
  with assms have n: "\<not> ok r" by simp
  let ?msg = "or_else (property j ''error'')
                (Some (JStr (js ''Scan failed with status '' @ decimal (status r))))"
  show ?thesis
  proof (cases "j = JNull")
    case True
    with Some n show ?thesis by (simp add: submitScan_try_def Let_def) (rule exI, rule refl)
  next
    case False
    show ?thesis
    proof (cases "interpolate env ?msg")
      case None
      with False Some n show ?thesis
        by (simp add: submitScan_try_def Let_def) (rule exI, rule refl)
    next
      case (Some t)
      with False \<open>resp_body r = Some j\<close> n show ?thesis
        by (simp add: submitScan_try_def Let_def) (rule exI, rule refl)
    qed
  qed
qed

lemma submitScan_try_s1_failure:
  assumes "\<not> ok r \<or> resp_body r = None"
  shows "\<exists>msg. submitScan_try_s1 env d (Some r) p = alert msg (do_fetch d p)"
proof (cases "resp_body r")
  case None
  then show ?thesis by (simp add: submitScan_try_s1_def Let_def) (rule exI, rule refl)
next
  case (Some j)
  with assms have n: "\<not> ok r" by simp
  let ?msg = "or_else (property j ''error'')
                (Some (JStr (js ''An unknown error occurred during scanning.'')))"
  show ?thesis
  proof (cases "j = JNull")
    case True
    with Some n show ?thesis by (simp add: submitScan_try_s1_def Let_def) (rule exI, rule refl)
  next
    case False
    show ?thesis
    proof (cases "interpolate env ?msg")
      case None
      with False Some n show ?thesis
        by (simp add: submitScan_try_s1_def Let_def) (rule exI, rule refl)
    next
      case (Some t)
      with False \<open>resp_body r = Some j\<close> n show ?thesis
        by (simp add: submitScan_try_s1_def Let_def) (rule exI, rule refl)
    qed
  qed
qed

lemma handleScanSubmission_try_failure:
  assumes "\<not> ok r \<or> resp_body r = None"
  shows "\<exists>msg. handleScanSubmission_try env d (Some r) p = alert msg (do_fetch d p)"
proof (cases "ok r")
  case True
  with assms have "resp_body r = None" by simp
  with True show ?thesis
    by (simp add: handleScanSubmission_try_def Let_def) (rule exI, rule refl)
next
  case False
  then show ?thesis
    by (simp add: handleScanSubmission_try_def Let_def) (rule exI, rule refl)
qed

lemma alert_untouched:
  "sessionStorage (alert msg (do_fetch d p)) = sessionStorage p"
  "localStorage (alert msg (do_fetch d p)) = localStorage p"
  "location (alert msg (do_fetch d p)) = location p"
  "alerts (alert msg (do_fetch d p)) = alerts p @ [msg]"
  by (simp_all add: page_steps)

lemma submitScan_try_error_member:
  assumes "\<not> ok r" and "resp_body r = Some j" and "truthy (property j ''error'')"
    and "interpolate env (property j ''error'') = Some e"
  shows "submitScan_try env d (Some r) p = alert (js ''Scan Error: '' @ e) (do_fetch d p)"
  using assms truthy_not_null [OF assms(3)]
  by (simp add: submitScan_try_def Let_def or_else_truthy)

lemma submitScan_try_error_member_throws:
  assumes "\<not> ok r" and "resp_body r = Some j" and "truthy (property j ''error'')"
    and "interpolate env (property j ''error'') = None"
  shows "submitScan_try env d (Some r) p = alert (js ''Network Error: Could not connect to backend. Is app.py running on http://127.0.0.1:5000 ?'') (do_fetch d p)"
  using assms truthy_not_null [OF assms(3)]
  by (simp add: submitScan_try_def Let_def or_else_truthy)

lemma submitScan_try_status_message:
  assumes "\<not> ok r" and "resp_body r = Some j" and "j \<noteq> JNull"
    and "\<not> truthy (property j ''error'')"
  shows "submitScan_try env d (Some r) p =
    alert (js ''Scan Error: '' @ js ''Scan failed with status '' @ decimal (status r))
      (do_fetch d p)"
  using assms by (simp add: submitScan_try_def Let_def or_else_falsy interpolate_string)

lemma submitScan_try_s1_error_member:
  assumes "\<not> ok r" and "resp_body r = Some j" and "truthy (property j ''error'')"
    and "interpolate env (property j ''error'') = Some e"
  shows "submitScan_try_s1 env d (Some r) p = alert (js ''Scan Error: '' @ e) (do_fetch d p)"
  using assms truthy_not_null [OF assms(3)]
  by (simp add: submitScan_try_s1_def Let_def or_else_truthy)

lemma submitScan_try_s1_error_member_throws:
  assumes "\<not> ok r" and "resp_body r = Some j" and "truthy (property j ''error'')"
    and "interpolate env (property j ''error'') = None"
  shows "submitScan_try_s1 env d (Some r) p = alert (js ''Network Error: Could not connect to the Python backend. Ensure 'app.py' is running on http://127.0.0.1:5000.'') (do_fetch d p)"
  using assms truthy_not_null [OF assms(3)]
  by (simp add: submitScan_try_s1_def Let_def or_else_truthy)

lemma submitScan_try_s1_fixed_message:
  assumes "\<not> ok r" and "resp_body r = Some j" and "j \<noteq> JNull"
    and "\<not> truthy (property j ''error'')"
  shows "submitScan_try_s1 env d (Some r) p =
    alert (js ''Scan Error: '' @ js ''An unknown error occurred during scanning.'')
      (do_fetch d p)"
  using assms by (simp add: submitScan_try_s1_def Let_def or_else_falsy interpolate_string)

text \<open>
  A body whose \<open>error\<close> member is \<open>{"toString": 0}\<close>: the template literal throws, and the
  three scripts raise the alert of their \<open>catch\<close>.
\<close>

lemma error_member_throws_example:
  "alerts (fst (submitScan example_builtins (JObj []) None
     (Some \<lparr>status = 500,
             resp_body = Some (JObj [(js ''error'', JObj [(js ''toString'', JNum 0)])])\<rparr>)
     blank_page)) =
     [js ''Network Error: Could not connect to backend. Is app.py running on http://127.0.0.1:5000 ?'']"
  "alerts (fst (submitScan_s1 example_builtins (JObj [])
     \<lparr>disabled = False, content = js ''Start Scan'', originalText = None, loading = False\<rparr>
     (Some \<lparr>status = 500,
             resp_body = Some (JObj [(js ''error'', JObj [(js ''toString'', JNum 0)])])\<rparr>)
     blank_page)) =
     [js ''Network Error: Could not connect to the Python backend. Ensure 'app.py' is running on http://127.0.0.1:5000.'']"
  "alerts (fst (handleScanSubmission example_builtins
     \<lparr>ip_host = js ''scanme.example.org'', port_select = js ''top_100'', ports_list = [],
      terms_agreement = True, protocol_gemin = Some (js ''tcp'')\<rparr>
     \<lparr>disabled = False, content = js ''Start Scan'', originalText = None, loading = False\<rparr>
     (Some \<lparr>status = 200,
             resp_body = Some (JObj [(js ''error'', JObj [(js ''toString'', JNum 0)])])\<rparr>)
     blank_page)) =
     [js ''Network Error: Could not connect to the Python backend. Ensure 'app.py' is running on http://127.0.0.1:5000.'']"
proof -
  have t: "truthy (Some (JObj [(js ''toString'', JNum 0)]))" by simp
  have i: "interpolate example_builtins (Some (JObj [(js ''toString'', JNum 0)])) = None"
    by (simp add: interpolate_def to_string_def)
  have e: "property (JObj [(js ''error'', JObj [(js ''toString'', JNum 0)])]) ''error'' =
      Some (JObj [(js ''toString'', JNum 0)])"
    by simp
  show "alerts (fst (submitScan example_builtins (JObj []) None
     (Some \<lparr>status = 500,
             resp_body = Some (JObj [(js ''error'', JObj [(js ''toString'', JNum 0)])])\<rparr>)
     blank_page)) =
     [js ''Network Error: Could not connect to backend. Is app.py running on http://127.0.0.1:5000 ?'']"
    by (simp add: submitScan_def submitScan_try_def Let_def ok_def e t i or_else_truthy
        page_steps blank_page_def del: property.simps truthy.simps)
  show "alerts (fst (submitScan_s1 example_builtins (JObj [])
     \<lparr>disabled = False, content = js ''Start Scan'', originalText = None, loading = False\<rparr>
     (Some \<lparr>status = 500,
             resp_body = Some (JObj [(js ''error'', JObj [(js ''toString'', JNum 0)])])\<rparr>)
     blank_page)) =
     [js ''Network Error: Could not connect to the Python backend. Ensure 'app.py' is running on http://127.0.0.1:5000.'']"
    by (simp add: submitScan_s1_def submitScan_try_s1_def Let_def ok_def e t i or_else_truthy
        page_steps blank_page_def del: property.simps truthy.simps)
  have g: "handleScanSubmission_scanData
     \<lparr>ip_host = js ''scanme.example.org'', port_select = js ''top_100'', ports_list = [],
      terms_agreement = True, protocol_gemin = Some (js ''tcp'')\<rparr> =
     Proceed (JObj [(js ''target_ip'', JStr (js ''scanme.example.org'')),
       (js ''protocol'', JStr (js ''tcp'')), (js ''ports_list'', JStr (js ''top_100''))])"
    by (simp add: handleScanSubmission_scanData_def validateForm_def validateForm_errors_def
        run_strings)
  show "alerts (fst (handleScanSubmission example_builtins
     \<lparr>ip_host = js ''scanme.example.org'', port_select = js ''top_100'', ports_list = [],
      terms_agreement = True, protocol_gemin = Some (js ''tcp'')\<rparr>
     \<lparr>disabled = False, content = js ''Start Scan'', originalText = None, loading = False\<rparr>
     (Some \<lparr>status = 200,
             resp_body = Some (JObj [(js ''error'', JObj [(js ''toString'', JNum 0)])])\<rparr>)
     blank_page)) =
     [js ''Network Error: Could not connect to the Python backend. Ensure 'app.py' is running on http://127.0.0.1:5000.'']"
    by (simp add: handleScanSubmission_def g handleScanSubmission_try_def Let_def ok_def e t i
        page_steps blank_page_def del: property.simps truthy.simps)
qed

text \<open>
  Claim C6, amended. For a response with a non-success status, or with a body that is
  not JSON, the three scripts store nothing, do not navigate, raise exactly one alert
  and leave the submit button enabled. When the status is not a success and the body is
  JSON, the alert of script.js and of script1.js is \<open>Scan Error:\<close> followed by the body's
  \<open>error\<close> member as a string, when that member is truthy and its conversion to a string
  returns; when the conversion throws, the alert is the text for a network error; when
  the member is not truthy (and the body is not \<open>null\<close>) \<open>Scan Error:\<close> is followed in
  script.js by \<open>Scan failed with status\<close> and the status, and in script1.js by a fixed
  text.
\<close>

theorem C6_failure_reported:
  assumes "\<not> ok r \<or> resp_body r = None"
  shows
    "sessionStorage (fst (submitScan env d b (Some r) p)) = sessionStorage p \<and>
     localStorage (fst (submitScan env d b (Some r) p)) = localStorage p \<and>
     location (fst (submitScan env d b (Some r) p)) = location p \<and>
     length (alerts (fst (submitScan env d b (Some r) p))) = Suc (length (alerts p)) \<and>
     map_option disabled (snd (submitScan env d b (Some r) p)) = map_option (\<lambda>x. False) b \<and>
     (resp_body r = Some j \<and> truthy (property j ''error'') \<and>
      interpolate env (property j ''error'') = Some e \<longrightarrow>
        alerts (fst (submitScan env d b (Some r) p)) = alerts p @ [js ''Scan Error: '' @ e]) \<and>
     (resp_body r = Some j \<and> truthy (property j ''error'') \<and>
      interpolate env (property j ''error'') = None \<longrightarrow>
        alerts (fst (submitScan env d b (Some r) p)) =
          alerts p @ [js ''Network Error: Could not connect to backend. Is app.py running on http://127.0.0.1:5000 ?'']) \<and>
     (resp_body r = Some j \<and> j \<noteq> JNull \<and> \<not> truthy (property j ''error'') \<longrightarrow>
        alerts (fst (submitScan env d b (Some r) p)) =
          alerts p @ [js ''Scan Error: '' @ js ''Scan failed with status '' @ decimal (status r)]) \<and>
     sessionStorage (fst (submitScan_s1 env d b1 (Some r) p)) = sessionStorage p \<and>
     localStorage (fst (submitScan_s1 env d b1 (Some r) p)) = localStorage p \<and>
     location (fst (submitScan_s1 env d b1 (Some r) p)) = location p \<and>
     length (alerts (fst (submitScan_s1 env d b1 (Some r) p))) = Suc (length (alerts p)) \<and>
     \<not> disabled (snd (submitScan_s1 env d b1 (Some r) p)) \<and>
     (resp_body r = Some j \<and> truthy (property j ''error'') \<and>
      interpolate env (property j ''error'') = Some e \<longrightarrow>
        alerts (fst (submitScan_s1 env d b1 (Some r) p)) = alerts p @ [js ''Scan Error: '' @ e]) \<and>
     (resp_body r = Some j \<and> truthy (property j ''error'') \<and>
      interpolate env (property j ''error'') = None \<longrightarrow>
        alerts (fst (submitScan_s1 env d b1 (Some r) p)) =
          alerts p @ [js ''Network Error: Could not connect to the Python backend. Ensure 'app.py' is running on http://127.0.0.1:5000.'']) \<and>
     (resp_body r = Some j \<and> j \<noteq> JNull \<and> \<not> truthy (property j ''error'') \<longrightarrow>
        alerts (fst (submitScan_s1 env d b1 (Some r) p)) =
          alerts p @ [js ''Scan Error: '' @ js ''An unknown error occurred during scanning.'']) \<and>
     (handleScanSubmission_scanData g = Proceed dg \<longrightarrow>
        sessionStorage (fst (handleScanSubmission env g b1 (Some r) p)) = sessionStorage p \<and>
        localStorage (fst (handleScanSubmission env g b1 (Some r) p)) = localStorage p \<and>
        location (fst (handleScanSubmission env g b1 (Some r) p)) = location p \<and>
        length (alerts (fst (handleScanSubmission env g b1 (Some r) p))) = Suc (length (alerts p)) \<and>
        \<not> disabled (snd (handleScanSubmission env g b1 (Some r) p)))"
proof -
  from assms obtain m where m: "submitScan_try env d (Some r) p = alert m (do_fetch d p)"
    using submitScan_try_failure by blast
  from assms obtain m1 where m1: "submitScan_try_s1 env d (Some r) p = alert m1 (do_fetch d p)"
    using submitScan_try_s1_failure by blast
  have n: "\<not> ok r" if "resp_body r = Some j" using assms that by auto
  have a: "sessionStorage (fst (submitScan env d b (Some r) p)) = sessionStorage p \<and>
     localStorage (fst (submitScan env d b (Some r) p)) = localStorage p \<and>
     location (fst (submitScan env d b (Some r) p)) = location p \<and>
     length (alerts (fst (submitScan env d b (Some r) p))) = Suc (length (alerts p))"
    by (simp add: submitScan_def m alert_untouched)
  have b: "map_option disabled (snd (submitScan env d b (Some r) p)) = map_option (\<lambda>x. False) b"
    by (cases b) (simp_all add: submitScan_def submitScan_finally_def)
  have c: "resp_body r = Some j \<and> truthy (property j ''error'') \<and>
      interpolate env (property j ''error'') = Some e \<longrightarrow>
        alerts (fst (submitScan env d b (Some r) p)) = alerts p @ [js ''Scan Error: '' @ e]"
    using n by (auto simp: submitScan_def submitScan_try_error_member alert_untouched)
  have t: "resp_body r = Some j \<and> truthy (property j ''error'') \<and>
      interpolate env (property j ''error'') = None \<longrightarrow>
        alerts (fst (submitScan env d b (Some r) p)) =
          alerts p @ [js ''Network Error: Could not connect to backend. Is app.py running on http://127.0.0.1:5000 ?'']"
    using n by (auto simp: submitScan_def submitScan_try_error_member_throws alert_untouched)
  have e: "resp_body r = Some j \<and> j \<noteq> JNull \<and> \<not> truthy (property j ''error'') \<longrightarrow>
        alerts (fst (submitScan env d b (Some r) p)) =
          alerts p @ [js ''Scan Error: '' @ js ''Scan failed with status '' @ decimal (status r)]"
    using n by (auto simp: submitScan_def submitScan_try_status_message alert_untouched)
  have a1: "sessionStorage (fst (submitScan_s1 env d b1 (Some r) p)) = sessionStorage p \<and>
     localStorage (fst (submitScan_s1 env d b1 (Some r) p)) = localStorage p \<and>
     location (fst (submitScan_s1 env d b1 (Some r) p)) = location p \<and>
     length (alerts (fst (submitScan_s1 env d b1 (Some r) p))) = Suc (length (alerts p)) \<and>
     \<not> disabled (snd (submitScan_s1 env d b1 (Some r) p))"
    by (simp add: submitScan_s1_def m1 alert_untouched submitScan_finally_s1_def)
  have c1: "resp_body r = Some j \<and> truthy (property j ''error'') \<and>
      interpolate env (property j ''error'') = Some e \<longrightarrow>
        alerts (fst (submitScan_s1 env d b1 (Some r) p)) = alerts p @ [js ''Scan Error: '' @ e]"
    using n by (auto simp: submitScan_s1_def submitScan_try_s1_error_member alert_untouched)
  have t1: "resp_body r = Some j \<and> truthy (property j ''error'') \<and>
      interpolate env (property j ''error'') = None \<longrightarrow>
        alerts (fst (submitScan_s1 env d b1 (Some r) p)) =
          alerts p @ [js ''Network Error: Could not connect to the Python backend. Ensure 'app.py' is running on http://127.0.0.1:5000.'']"
    using n by (auto simp: submitScan_s1_def submitScan_try_s1_error_member_throws alert_untouched)
  have e1: "resp_body r = Some j \<and> j \<noteq> JNull \<and> \<not> truthy (property j ''error'') \<longrightarrow>
        alerts (fst (submitScan_s1 env d b1 (Some r) p)) =
          alerts p @ [js ''Scan Error: '' @ js ''An unknown error occurred during scanning.'']"
    using n by (auto simp: submitScan_s1_def submitScan_try_s1_fixed_message alert_untouched)
  have g: "handleScanSubmission_scanData g = Proceed dg \<longrightarrow>
        sessionStorage (fst (handleScanSubmission env g b1 (Some r) p)) = sessionStorage p \<and>
        localStorage (fst (handleScanSubmission env g b1 (Some r) p)) = localStorage p \<and>
        location (fst (handleScanSubmission env g b1 (Some r) p)) = location p \<and>
        length (alerts (fst (handleScanSubmission env g b1 (Some r) p))) = Suc (length (alerts p)) \<and>
        \<not> disabled (snd (handleScanSubmission env g b1 (Some r) p))"
  proof
    assume pr: "handleScanSubmission_scanData g = Proceed dg"
    from assms obtain mg where
      "handleScanSubmission_try env dg (Some r) (p\<lparr>field_errors := []\<rparr>) =
         alert mg (do_fetch dg (p\<lparr>field_errors := []\<rparr>))"
      using handleScanSubmission_try_failure by blast
    with pr show "sessionStorage (fst (handleScanSubmission env g b1 (Some r) p)) = sessionStorage p \<and>
        localStorage (fst (handleScanSubmission env g b1 (Some r) p)) = localStorage p \<and>
        location (fst (handleScanSubmission env g b1 (Some r) p)) = location p \<and>
        length (alerts (fst (handleScanSubmission env g b1 (Some r) p))) = Suc (length (alerts p)) \<and>
        \<not> disabled (snd (handleScanSubmission env g b1 (Some r) p))"
      by (simp add: handleScanSubmission_def alert_untouched handleScanSubmission_finally_def)
  qed
  from a b c t e a1 c1 t1 e1 g show ?thesis by blast
qed

text \<open>
  The example of the specification, status 500 with the body \<open>{"error": "host
  unreachable"}\<close>, and status 503 with the body \<open>{}\<close>, both in script.js.
\<close>

theorem C6_failure_reported_witness:
  "\<not> ok \<lparr>status = 500, resp_body = Some (JObj [(js ''error'', JStr (js ''host unreachable''))])\<rparr> \<and>
   alerts (fst (submitScan example_builtins (JObj []) None
     (Some \<lparr>status = 500,
             resp_body = Some (JObj [(js ''error'', JStr (js ''host unreachable''))])\<rparr>)
     blank_page)) = [js ''Scan Error: host unreachable''] \<and>
   sessionStorage (fst (submitScan example_builtins (JObj []) None
     (Some \<lparr>status = 500,
             resp_body = Some (JObj [(js ''error'', JStr (js ''host unreachable''))])\<rparr>)
     blank_page)) ''scanResults'' = None \<and>
   location (fst (submitScan example_builtins (JObj []) None
     (Some \<lparr>status = 500,
             resp_body = Some (JObj [(js ''error'', JStr (js ''host unreachable''))])\<rparr>)
     blank_page)) = None \<and>
   alerts (fst (submitScan example_builtins (JObj []) None
     (Some \<lparr>status = 503, resp_body = Some (JObj [])\<rparr>) blank_page)) =
     [js ''Scan Error: Scan failed with status 503'']"
proof -
  let ?j = "JObj [(js ''error'', JStr (js ''host unreachable''))]"
  let ?r = "\<lparr>status = 500, resp_body = Some ?j\<rparr>"
  have 1: "\<not> ok ?r" by (simp add: ok_def)
  then have 2: "\<not> ok ?r \<or> resp_body ?r = None" by simp
  have 3: "resp_body ?r = Some ?j" by simp
  have 4: "property ?j ''error'' = Some (JStr (js ''host unreachable''))" by simp
  have 5: "truthy (property ?j ''error'')" by (simp add: js_def)
  have 6: "sessionStorage blank_page = Map.empty" "location blank_page = None"
    "alerts blank_page = []"
    by (simp_all add: blank_page_def)
  have 7: "js ''Scan Error: '' @ js ''host unreachable'' = js ''Scan Error: host unreachable''"
    by (simp add: js_def)
  have i: "interpolate example_builtins (property ?j ''error'') = Some (js ''host unreachable'')"
    by (simp only: 4 interpolate_string)
  from C6_failure_reported [OF 2, where j = ?j and env = example_builtins and d = "JObj []"
      and b = None and p = blank_page and e = "js ''host unreachable''"] 3 5 i
  have "sessionStorage (fst (submitScan example_builtins (JObj []) None (Some ?r) blank_page)) =
          sessionStorage blank_page"
    and "location (fst (submitScan example_builtins (JObj []) None (Some ?r) blank_page)) =
          location blank_page"
    and "alerts (fst (submitScan example_builtins (JObj []) None (Some ?r) blank_page)) =
          alerts blank_page @ [js ''Scan Error: '' @ js ''host unreachable'']"
    by blast+
  moreover
  let ?r' = "\<lparr>status = 503, resp_body = Some (JObj [])\<rparr>"
  have 8: "\<not> ok ?r' \<or> resp_body ?r' = None" by (simp add: ok_def)
  have 9: "resp_body ?r' = Some (JObj [])" "JObj [] \<noteq> JNull"
    "\<not> truthy (property (JObj []) ''error'')" "status ?r' = 503"
    by simp_all
  have 10: "js ''Scan Error: '' @ js ''Scan failed with status '' @ decimal 503 =
      js ''Scan Error: Scan failed with status 503''"
    by (simp add: js_def decimal.simps)
  from C6_failure_reported [OF 8, where j = "JObj []" and env = example_builtins
      and d = "JObj []" and b = None and p = blank_page] 9
  have "alerts (fst (submitScan example_builtins (JObj []) None (Some ?r') blank_page)) =
          alerts blank_page @ [js ''Scan Error: '' @ js ''Scan failed with status '' @ decimal 503]"
    by simp
  ultimately show ?thesis using 1
    by (simp only: 6 7 10 append_Nil simp_thms)
qed

text \<open>
  Claim C6 as stated fails in script1.js: for a non-success status and a JSON body
  without an \<open>error\<close> member the alert is a fixed text, the same for status 500 and
  status 404, not one made from the status.
\<close>

theorem C6_fixed_message_counterexample:
  "\<not> ok \<lparr>status = 500, resp_body = Some (JObj [])\<rparr> \<and>
   \<not> ok \<lparr>status = 404, resp_body = Some (JObj [])\<rparr> \<and>
   alerts (fst (submitScan_s1 example_builtins (JObj [])
     \<lparr>disabled = False, content = js ''Start Scan'', originalText = None, loading = False\<rparr>
     (Some \<lparr>status = 500, resp_body = Some (JObj [])\<rparr>) blank_page)) =
     [js ''Scan Error: An unknown error occurred during scanning.''] \<and>
   alerts (fst (submitScan_s1 example_builtins (JObj [])
     \<lparr>disabled = False, content = js ''Start Scan'', originalText = None, loading = False\<rparr>
     (Some \<lparr>status = 404, resp_body = Some (JObj [])\<rparr>) blank_page)) =
     [js ''Scan Error: An unknown error occurred during scanning.'']"
  by (simp add: ok_def submitScan_s1_def submitScan_try_s1_def page_steps or_else_def
      interpolate_def to_string_def blank_page_def js_def)

section \<open>The results page\<close>

lemma text_of_converts: "converts v \<Longrightarrow> \<exists>t. text_of env v = Some t"
proof (cases v)
  case None
  then show ?thesis by (simp add: text_of_def)
next
  case (Some w)
  assume "converts v"
  with Some show ?thesis by (cases w) (simp_all add: text_of_def to_string_def converts_def)
qed

lemma text_of_throws: "\<not> converts v \<Longrightarrow> text_of env v = None"
proof (cases v)
  case None
  assume "\<not> converts v"
  with None show ?thesis by (simp add: converts_def)
next
  case (Some w)
  assume "\<not> converts v"
  with Some show ?thesis by (cases w) (simp_all add: text_of_def to_string_def converts_def)
qed

lemma text_of_string: "text_of env (Some (JStr s)) = Some s"
  by (simp add: text_of_def to_string_def)

lemma summary_duration_converts:
  assumes "converts (property data ''scan_duration'')"
  shows "converts (summary_duration env data)"
proof (cases "property data ''scan_duration''")
  case None
  then show ?thesis by (simp add: summary_duration_def or_else_def converts_def)
next
  case (Some w)
  with assms show ?thesis
    by (cases w) (simp_all add: summary_duration_def or_else_def converts_def)
qed

lemma loadResultsPage_scan_duration:
  assumes "data \<noteq> JNull"
    and "converts (summary_target data)" and "converts (summary_count data)"
  shows "scan_duration_text (loadResultsPage env (Some data)) =
    text_of env (summary_duration env data)"
proof -
  from text_of_converts [OF assms(2)] obtain target
    where t: "text_of env (summary_target data) = Some target" by blast
  from text_of_converts [OF assms(3)] obtain count
    where c: "text_of env (summary_count data) = Some count" by blast
  show ?thesis
    using assms(1)
    by (simp add: loadResultsPage_def Let_def blank_view_def t c
        split: option.splits json.splits)
qed

lemma loadResultsPage_protocol:
  assumes "data \<noteq> JNull"
    and "converts (summary_target data)" and "converts (summary_count data)"
    and "converts (property data ''scan_duration'')"
    and "or_else (property data ''protocol'') (Some (JStr (js ''tcp''))) = Some (JStr s)"
  shows "protocol_used_text (loadResultsPage env (Some data)) = Some (toUpperCase env s)"
    and "ports_scanned_text (loadResultsPage env (Some data)) = text_of env (portsText data)"
proof -
  from text_of_converts [OF assms(2)] obtain target
    where t: "text_of env (summary_target data) = Some target" by blast
  from text_of_converts [OF assms(3)] obtain count
    where c: "text_of env (summary_count data) = Some count" by blast
  from text_of_converts [OF summary_duration_converts [OF assms(4)]] obtain duration
    where d: "text_of env (summary_duration env data) = Some duration" by blast
  show "protocol_used_text (loadResultsPage env (Some data)) = Some (toUpperCase env s)"
    using assms(1)
    by (simp add: loadResultsPage_def Let_def blank_view_def t c d assms(5)
        split: option.splits)
  show "ports_scanned_text (loadResultsPage env (Some data)) = text_of env (portsText data)"
    using assms(1)
    by (simp add: loadResultsPage_def Let_def blank_view_def t c d assms(5)
        split: option.splits)
qed

lemma loadResultsPage_stops:
  assumes "data \<noteq> JNull"
    and "\<not> (converts (summary_target data) \<and> converts (summary_count data))"
  shows "scan_duration_text (loadResultsPage env (Some data)) = None"
    and "protocol_used_text (loadResultsPage env (Some data)) = None"
    and "ports_scanned_text (loadResultsPage env (Some data)) = None"
proof -
  have "scan_duration_text (loadResultsPage env (Some data)) = None \<and>
    protocol_used_text (loadResultsPage env (Some data)) = None \<and>
    ports_scanned_text (loadResultsPage env (Some data)) = None"
  proof (cases "converts (summary_target data)")
    case False
    from text_of_throws [OF this] assms(1) show ?thesis
      by (simp add: loadResultsPage_def blank_view_def)
  next
    case True
    from text_of_converts [OF this] obtain target
      where t: "text_of env (summary_target data) = Some target" by blast
    from True assms(2) have "\<not> converts (summary_count data)" by simp
    from text_of_throws [OF this] assms(1) show ?thesis
      by (simp add: loadResultsPage_def Let_def blank_view_def t)
  qed
  then show "scan_duration_text (loadResultsPage env (Some data)) = None"
    and "protocol_used_text (loadResultsPage env (Some data)) = None"
    and "ports_scanned_text (loadResultsPage env (Some data)) = None"
    by simp_all
qed

lemma top_no_digits: "filter digit (js ''top'') = []"
  by (simp add: js_def digit_def)

lemma filter_all: "list_all q n \<Longrightarrow> filter q n = n"
  by (induction n) auto

lemma portsText_top:
  assumes "or_else (property data ''ports_list'')
             (or_else (property data ''port_mode'') (Some (JStr (js ''N/A'')))) =
           Some (JStr (js ''top'' @ n))"
    and "n \<noteq> []" and "list_all digit n"
  shows "portsText data = Some (JStr (js ''Top '' @ n @ js '' ports''))"
proof -
  have s: "startsWith (js ''top'' @ n) (js ''top'')" by (simp add: startsWith_def)
  have d: "strip_non_digits (js ''top'' @ n) = n"
    using assms(3) by (simp add: strip_non_digits_def top_no_digits filter_all)
  show ?thesis
    using assms(2) by (simp add: portsText_def assms(1) s d)
qed

lemma top_underscore: "js ''top_'' @ n = js ''top'' @ underscore # n"
  by (simp add: js_def underscore_def)

lemma underscore_not_in_top: "underscore \<notin> set (js ''top'')"
  by (simp add: js_def underscore_def)

lemma split_top_underscore:
  "underscore \<notin> set n \<Longrightarrow> split_on underscore (js ''top_'' @ n) = [js ''top'', n]"
  by (simp add: top_underscore split_on_append [OF underscore_not_in_top]
      split_on_no_separator)

lemma loadResultsPage_gemin_typed:
  assumes "truthy (property g ''target_ip'')" and "converts (property g ''target_ip'')"
    and "property g ''open_ports'' = Some ops" and "ops \<noteq> JNull"
    and "converts (length_of ops)"
    and "property g ''scan_duration'' = Some (JNum x)"
    and "property g ''protocol'' = Some (JStr proto)"
    and "property g ''ports_list'' = Some (JStr pl)"
  shows "scan_duration_text (loadResultsPage_gemin env (Some g)) = Some (toFixed2 env x @ js ''s'')"
    and "protocol_used_text (loadResultsPage_gemin env (Some g)) = Some (toUpperCase env proto)"
    and "ports_scanned_text (loadResultsPage_gemin env (Some g)) =
      Some (if startsWith pl (js ''top_'') then
              js ''Top '' @ (case split_on underscore pl of t0 # t1 # ts \<Rightarrow> t1
                              | _ \<Rightarrow> js ''undefined'') @ js '' Ports''
            else pl)"
proof -
  from assms(1) have "g \<noteq> JNull" by auto
  then have t: "truthy (Some g)" using assms(1) by (cases g) auto
  from text_of_converts [OF assms(2)] obtain target
    where tt: "text_of env (property g ''target_ip'') = Some target" by blast
  from text_of_converts [OF assms(5)] obtain count
    where c: "text_of env (length_of ops) = Some count" by blast
  note facts = assms(1,3,4,6,7,8) t tt c
  show "scan_duration_text (loadResultsPage_gemin env (Some g)) = Some (toFixed2 env x @ js ''s'')"
    using facts by (cases ops) (simp_all add: loadResultsPage_gemin_def Let_def)
  show "protocol_used_text (loadResultsPage_gemin env (Some g)) = Some (toUpperCase env proto)"
    using facts by (cases ops) (simp_all add: loadResultsPage_gemin_def Let_def)
  show "ports_scanned_text (loadResultsPage_gemin env (Some g)) =
      Some (if startsWith pl (js ''top_'') then
              js ''Top '' @ (case split_on underscore pl of t0 # t1 # ts \<Rightarrow> t1
                              | _ \<Rightarrow> js ''undefined'') @ js '' Ports''
            else pl)"
    using facts by (cases ops) (simp_all add: loadResultsPage_gemin_def Let_def)
qed

text \<open>
  A stored result whose target is \<open>{"toString": 0}\<close>: the first assignment throws, and
  both functions leave every element as it was.
\<close>

lemma target_throws_example:
  "loadResultsPage example_builtins (Some
     (JObj [(js ''target_ip'', JObj [(js ''toString'', JNum 0)]), (js ''open_ports'', JArr []),
         (js ''scan_duration'', JNum 1.23), (js ''protocol'', JStr (js ''tcp'')),
         (js ''ports_list'', JStr (js ''top100''))])) = blank_view"
  "loadResultsPage_gemin example_builtins (Some
     (JObj [(js ''target_ip'', JObj [(js ''toString'', JNum 0)]), (js ''open_ports'', JArr []),
         (js ''scan_duration'', JNum 1.23), (js ''protocol'', JStr (js ''tcp'')),
         (js ''ports_list'', JStr (js ''top_100''))])) = blank_view"
  by (simp_all add: loadResultsPage_def loadResultsPage_gemin_def summary_target_def
      or_else_def text_of_def to_string_def js_def)

text \<open>
  Claim C9, amended. Take a stored result other than \<open>null\<close>. When the values that
  \<open>loadResultsPage\<close> of script.js shows first, the target and the number of open ports,
  convert to a string, it shows a numeric duration as \<open>toFixed(2)\<close> followed by \<open>s\<close>, a
  duration that is a non-empty string as it is, and \<open>N/A\<close> for a falsy one; when the
  duration converts to a string too it shows the protocol, \<open>tcp\<close> when the member is
  falsy, in upper case, and then a \<open>ports_list\<close>, or without one a \<open>port_mode\<close>, of \<open>top\<close>
  followed by digits as \<open>Top\<close>, the digits and \<open>ports\<close>. When the target or the number of
  open ports does not convert to a string (an object with a \<open>toString\<close> member, or an
  array holding one), it shows no duration, no protocol and no ports. \<open>loadResultsPage\<close> of
  scriptgemin.js, for a result with a truthy target that converts to a string, a list
  of ports whose length does, a numeric duration, a string protocol and a \<open>ports_list\<close>
  of \<open>top_\<close> followed by a number, shows the duration and the protocol in the same way
  and the ports as \<open>Top\<close>, the number and \<open>Ports\<close>.
\<close>

theorem C9_summary_fields:
  assumes "data \<noteq> JNull"
  shows
    "(converts (summary_target data) \<and> converts (summary_count data) \<longrightarrow>
       (property data ''scan_duration'' = Some (JNum x) \<longrightarrow>
          scan_duration_text (loadResultsPage env (Some data)) = Some (toFixed2 env x @ js ''s'')) \<and>
       (property data ''scan_duration'' = Some (JStr raw) \<and> raw \<noteq> [] \<longrightarrow>
          scan_duration_text (loadResultsPage env (Some data)) = Some raw) \<and>
       (\<not> truthy (property data ''scan_duration'') \<and>
        (\<forall>y. property data ''scan_duration'' \<noteq> Some (JNum y)) \<longrightarrow>
          scan_duration_text (loadResultsPage env (Some data)) = Some (js ''N/A'')) \<and>
       (converts (property data ''scan_duration'') \<and>
        property data ''protocol'' = Some (JStr proto) \<and> proto \<noteq> [] \<longrightarrow>
          protocol_used_text (loadResultsPage env (Some data)) = Some (toUpperCase env proto)) \<and>
       (converts (property data ''scan_duration'') \<and> \<not> truthy (property data ''protocol'') \<longrightarrow>
          protocol_used_text (loadResultsPage env (Some data)) =
            Some (toUpperCase env (js ''tcp''))) \<and>
       (converts (property data ''scan_duration'') \<and>
        (\<not> truthy (property data ''protocol'') \<or> property data ''protocol'' = Some (JStr proto)) \<and>
        (property data ''ports_list'' = Some (JStr (js ''top'' @ n)) \<or>
         \<not> truthy (property data ''ports_list'') \<and>
         property data ''port_mode'' = Some (JStr (js ''top'' @ n))) \<and>
        n \<noteq> [] \<and> list_all digit n \<longrightarrow>
          ports_scanned_text (loadResultsPage env (Some data)) =
            Some (js ''Top '' @ n @ js '' ports''))) \<and>
     (\<not> (converts (summary_target data) \<and> converts (summary_count data)) \<longrightarrow>
        scan_duration_text (loadResultsPage env (Some data)) = None \<and>
        protocol_used_text (loadResultsPage env (Some data)) = None \<and>
        ports_scanned_text (loadResultsPage env (Some data)) = None) \<and>
     (truthy (property g ''target_ip'') \<and> converts (property g ''target_ip'') \<and>
      property g ''open_ports'' = Some ops \<and> ops \<noteq> JNull \<and> converts (length_of ops) \<and>
      property g ''scan_duration'' = Some (JNum x) \<and> property g ''protocol'' = Some (JStr proto) \<and>
      property g ''ports_list'' = Some (JStr (js ''top_'' @ n)) \<and> underscore \<notin> set n \<longrightarrow>
        scan_duration_text (loadResultsPage_gemin env (Some g)) = Some (toFixed2 env x @ js ''s'') \<and>
        protocol_used_text (loadResultsPage_gemin env (Some g)) = Some (toUpperCase env proto) \<and>
        ports_scanned_text (loadResultsPage_gemin env (Some g)) =
          Some (js ''Top '' @ n @ js '' Ports''))"
proof (intro conjI impI)
  assume s: "converts (summary_target data) \<and> converts (summary_count data)"
  then have st: "converts (summary_target data)" and sc: "converts (summary_count data)"
    by simp_all
  note d = loadResultsPage_scan_duration [OF assms st sc, of env]
  note pr = loadResultsPage_protocol [OF assms st sc]
  show "scan_duration_text (loadResultsPage env (Some data)) = Some (toFixed2 env x @ js ''s'')"
    if "property data ''scan_duration'' = Some (JNum x)"
    using that by (simp add: d summary_duration_def text_of_string)
  show "scan_duration_text (loadResultsPage env (Some data)) = Some raw"
    if "property data ''scan_duration'' = Some (JStr raw) \<and> raw \<noteq> []"
    using that by (simp add: d summary_duration_def or_else_def text_of_string)
  show "scan_duration_text (loadResultsPage env (Some data)) = Some (js ''N/A'')"
    if "\<not> truthy (property data ''scan_duration'') \<and>
      (\<forall>y. property data ''scan_duration'' \<noteq> Some (JNum y))"
  proof (cases "property data ''scan_duration''")
    case None
    then show ?thesis by (simp add: d summary_duration_def or_else_def text_of_string)
  next
    case (Some v)
    with that show ?thesis
      by (cases v) (simp_all add: d summary_duration_def or_else_def text_of_string)
  qed
  show "protocol_used_text (loadResultsPage env (Some data)) = Some (toUpperCase env proto)"
    if h: "converts (property data ''scan_duration'') \<and>
      property data ''protocol'' = Some (JStr proto) \<and> proto \<noteq> []"
  proof -
    from h have c: "converts (property data ''scan_duration'')" by simp
    from h have "or_else (property data ''protocol'') (Some (JStr (js ''tcp''))) =
        Some (JStr proto)"
      by (simp add: or_else_def)
    from pr(1) [OF c this] show ?thesis .
  qed
  show "protocol_used_text (loadResultsPage env (Some data)) = Some (toUpperCase env (js ''tcp''))"
    if h: "converts (property data ''scan_duration'') \<and> \<not> truthy (property data ''protocol'')"
  proof -
    from h have c: "converts (property data ''scan_duration'')" by simp
    from h have "or_else (property data ''protocol'') (Some (JStr (js ''tcp''))) =
        Some (JStr (js ''tcp''))"
      by (simp add: or_else_def)
    from pr(1) [OF c this] show ?thesis .
  qed
  show "ports_scanned_text (loadResultsPage env (Some data)) = Some (js ''Top '' @ n @ js '' ports'')"
    if h: "converts (property data ''scan_duration'') \<and>
      (\<not> truthy (property data ''protocol'') \<or> property data ''protocol'' = Some (JStr proto)) \<and>
      (property data ''ports_list'' = Some (JStr (js ''top'' @ n)) \<or>
       \<not> truthy (property data ''ports_list'') \<and>
       property data ''port_mode'' = Some (JStr (js ''top'' @ n))) \<and>
      n \<noteq> [] \<and> list_all digit n"
  proof -
    from h have c: "converts (property data ''scan_duration'')" by simp
    have "js ''top'' @ n \<noteq> []" by (simp add: js_def)
    with h have o: "or_else (property data ''ports_list'')
             (or_else (property data ''port_mode'') (Some (JStr (js ''N/A'')))) =
           Some (JStr (js ''top'' @ n))"
      by (auto simp: or_else_def)
    from h have "\<exists>s. or_else (property data ''protocol'') (Some (JStr (js ''tcp''))) = Some (JStr s)"
      by (auto simp: or_else_def)
    then obtain s where "or_else (property data ''protocol'') (Some (JStr (js ''tcp''))) = Some (JStr s)"
      by blast
    from pr(2) [OF c this] h show ?thesis
      by (simp add: portsText_top [OF o] text_of_string)
  qed
next
  assume n: "\<not> (converts (summary_target data) \<and> converts (summary_count data))"
  show "scan_duration_text (loadResultsPage env (Some data)) = None"
    by (rule loadResultsPage_stops(1) [OF assms n])
  show "protocol_used_text (loadResultsPage env (Some data)) = None"
    by (rule loadResultsPage_stops(2) [OF assms n])
  show "ports_scanned_text (loadResultsPage env (Some data)) = None"
    by (rule loadResultsPage_stops(3) [OF assms n])
next
  assume h: "truthy (property g ''target_ip'') \<and> converts (property g ''target_ip'') \<and>
      property g ''open_ports'' = Some ops \<and> ops \<noteq> JNull \<and> converts (length_of ops) \<and>
      property g ''scan_duration'' = Some (JNum x) \<and> property g ''protocol'' = Some (JStr proto) \<and>
      property g ''ports_list'' = Some (JStr (js ''top_'' @ n)) \<and> underscore \<notin> set n"
  then have typed: "truthy (property g ''target_ip'')" "converts (property g ''target_ip'')"
    "property g ''open_ports'' = Some ops"
    "ops \<noteq> JNull" "converts (length_of ops)" "property g ''scan_duration'' = Some (JNum x)"
    "property g ''protocol'' = Some (JStr proto)"
    "property g ''ports_list'' = Some (JStr (js ''top_'' @ n))"
    by simp_all
  show "scan_duration_text (loadResultsPage_gemin env (Some g)) = Some (toFixed2 env x @ js ''s'')"
    by (rule loadResultsPage_gemin_typed(1) [OF typed])
  show "protocol_used_text (loadResultsPage_gemin env (Some g)) = Some (toUpperCase env proto)"
    by (rule loadResultsPage_gemin_typed(2) [OF typed])
  have "startsWith (js ''top_'' @ n) (js ''top_'')" by (simp add: startsWith_def)
  moreover from h have "split_on underscore (js ''top_'' @ n) = [js ''top'', n]"
    by (simp add: split_top_underscore)
  ultimately show "ports_scanned_text (loadResultsPage_gemin env (Some g)) =
      Some (js ''Top '' @ n @ js '' Ports'')"
    by (simp add: loadResultsPage_gemin_typed(3) [OF typed])
qed

text \<open>
  The example of the specification, a scan of the hundred top ports that took 1.23
  seconds, as script.js and as scriptgemin.js name the ports.
\<close>

theorem C9_summary_fields_witness:
  "JObj [(js ''open_ports'', JArr []), (js ''scan_duration'', JNum 1.23),
         (js ''protocol'', JStr (js ''tcp'')), (js ''ports_list'', JStr (js ''top100''))] \<noteq> JNull \<and>
   scan_duration_text (loadResultsPage example_builtins (Some
     (JObj [(js ''open_ports'', JArr []), (js ''scan_duration'', JNum 1.23),
         (js ''protocol'', JStr (js ''tcp'')), (js ''ports_list'', JStr (js ''top100''))]))) =
     Some (js ''1.23s'') \<and>
   protocol_used_text (loadResultsPage example_builtins (Some
     (JObj [(js ''open_ports'', JArr []), (js ''scan_duration'', JNum 1.23),
         (js ''protocol'', JStr (js ''tcp'')), (js ''ports_list'', JStr (js ''top100''))]))) =
     Some (js ''TCP'') \<and>
   ports_scanned_text (loadResultsPage example_builtins (Some
     (JObj [(js ''open_ports'', JArr []), (js ''scan_duration'', JNum 1.23),
         (js ''protocol'', JStr (js ''tcp'')), (js ''ports_list'', JStr (js ''top100''))]))) =
     Some (js ''Top 100 ports'') \<and>
   ports_scanned_text (loadResultsPage_gemin example_builtins (Some
     (JObj [(js ''target_ip'', JStr (js ''10.0.0.5'')), (js ''open_ports'', JArr []),
         (js ''scan_duration'', JNum 1.23), (js ''protocol'', JStr (js ''tcp'')),
         (js ''ports_list'', JStr (js ''top_100''))]))) =
     Some (js ''Top 100 Ports'') \<and>
   scan_duration_text (loadResultsPage example_builtins (Some (JObj []))) = Some (js ''N/A'') \<and>
   protocol_used_text (loadResultsPage example_builtins (Some (JObj []))) = Some (js ''TCP'')"
proof -
  let ?d = "JObj [(js ''open_ports'', JArr []), (js ''scan_duration'', JNum 1.23),
         (js ''protocol'', JStr (js ''tcp'')), (js ''ports_list'', JStr (js ''top100''))]"
  let ?g = "JObj [(js ''target_ip'', JStr (js ''10.0.0.5'')), (js ''open_ports'', JArr []),
         (js ''scan_duration'', JNum 1.23), (js ''protocol'', JStr (js ''tcp'')),
         (js ''ports_list'', JStr (js ''top_100''))]"
  have 0: "?d \<noteq> JNull" by simp
  have d: "property ?d ''scan_duration'' = Some (JNum 1.23)"
    "property ?d ''protocol'' = Some (JStr (js ''tcp''))"
    "property ?d ''ports_list'' = Some (JStr (js ''top'' @ js ''100''))"
    by (simp_all add: js_def)
  have c: "converts (summary_target ?d)" "converts (summary_count ?d)"
    "converts (property ?d ''scan_duration'')"
    "converts (summary_target (JObj []))" "converts (summary_count (JObj []))"
    "converts (property (JObj []) ''scan_duration'')"
    "converts (property ?g ''target_ip'')" "converts (length_of (JArr []))"
    by (simp_all add: converts_def summary_target_def summary_count_def or_else_def
        length_of_def js_def)
  have g: "truthy (property ?g ''target_ip'')"
    "property ?g ''open_ports'' = Some (JArr [])"
    "property ?g ''scan_duration'' = Some (JNum 1.23)"
    "property ?g ''protocol'' = Some (JStr (js ''tcp''))"
    "property ?g ''ports_list'' = Some (JStr (js ''top_'' @ js ''100''))"
    by (simp_all add: js_def)
  have n: "js ''tcp'' \<noteq> []" "js ''100'' \<noteq> []" "list_all digit (js ''100'')"
    "underscore \<notin> set (js ''100'')" "JArr [] \<noteq> JNull"
    by (simp_all add: js_def digit_def underscore_def)
  have e: "toFixed2 example_builtins 1.23 @ js ''s'' = js ''1.23s''"
    "toUpperCase example_builtins (js ''tcp'') = js ''TCP''"
    "js ''Top '' @ js ''100'' @ js '' ports'' = js ''Top 100 ports''"
    "js ''Top '' @ js ''100'' @ js '' Ports'' = js ''Top 100 Ports''"
    by (simp_all add: example_builtins_def real_toFixed2_def ascii_toUpperCase_def
        decimal.simps lower_def js_def)
  from C9_summary_fields [OF 0, where env = example_builtins and x = "1.23"
      and proto = "js ''tcp''" and n = "js ''100''" and g = ?g and ops = "JArr []"] c d g n
  have "scan_duration_text (loadResultsPage example_builtins (Some ?d)) =
          Some (toFixed2 example_builtins 1.23 @ js ''s'')"
    and "protocol_used_text (loadResultsPage example_builtins (Some ?d)) =
          Some (toUpperCase example_builtins (js ''tcp''))"
    and "ports_scanned_text (loadResultsPage example_builtins (Some ?d)) =
          Some (js ''Top '' @ js ''100'' @ js '' ports'')"
    and "ports_scanned_text (loadResultsPage_gemin example_builtins (Some ?g)) =
          Some (js ''Top '' @ js ''100'' @ js '' Ports'')"
    by blast+
  moreover
  have 1: "JObj [] \<noteq> JNull" by simp
  have f: "\<not> truthy (property (JObj []) ''scan_duration'')"
    "\<forall>y. property (JObj []) ''scan_duration'' \<noteq> Some (JNum y)"
    "\<not> truthy (property (JObj []) ''protocol'')"
    by simp_all
  from C9_summary_fields [OF 1, where env = example_builtins] c f
  have "scan_duration_text (loadResultsPage example_builtins (Some (JObj []))) = Some (js ''N/A'')"
    and "protocol_used_text (loadResultsPage example_builtins (Some (JObj []))) =
          Some (toUpperCase example_builtins (js ''tcp''))"
    by blast+
  ultimately show ?thesis using 0 by (simp only: e simp_thms)
qed

text \<open>
  Claim C9 as stated fails for \<open>loadResultsPage\<close> of scriptgemin.js: the token \<open>top100\<close>
  is shown as it is, and with a duration that is not a number the function stops
  before it shows a duration or a protocol.
\<close>

theorem C9_scriptgemin_counterexample:
  "ports_scanned_text (loadResultsPage_gemin example_builtins (Some
     (JObj [(js ''target_ip'', JStr (js ''10.0.0.5'')), (js ''open_ports'', JArr []),
         (js ''scan_duration'', JNum 1.23), (js ''protocol'', JStr (js ''tcp'')),
         (js ''ports_list'', JStr (js ''top100''))]))) = Some (js ''top100'') \<and>
   js ''top100'' \<noteq> js ''Top 100 ports'' \<and>
   scan_duration_text (loadResultsPage_gemin example_builtins (Some
     (JObj [(js ''target_ip'', JStr (js ''10.0.0.5'')), (js ''open_ports'', JArr []),
         (js ''scan_duration'', JStr (js ''unknown'')), (js ''protocol'', JStr (js ''tcp'')),
         (js ''ports_list'', JStr (js ''top100''))]))) = None \<and>
   protocol_used_text (loadResultsPage_gemin example_builtins (Some
     (JObj [(js ''target_ip'', JStr (js ''10.0.0.5'')), (js ''open_ports'', JArr []),
         (js ''scan_duration'', JStr (js ''unknown'')), (js ''protocol'', JStr (js ''tcp'')),
         (js ''ports_list'', JStr (js ''top100''))]))) = None"
  by (simp add: loadResultsPage_gemin_def Let_def blank_view_def startsWith_def
      text_of_def to_string_def length_of_def js_def)

end
